theory Spec2Isabelle
  imports Complex_Main "HOL-Library.Sublist" "HOL-Library.AList"
begin

section \<open>JavaScript values and the platform\<close>

text \<open>
  The application is TypeScript running on a JavaScript engine. Typed entities
  (\<open>Schedule\<close>, \<open>Workout\<close>, \<open>WorkoutPlan\<close>) are records; what \<open>JSON.parse\<close>
  returns is an untyped runtime value, modelled by \<open>jsval\<close>. \<open>undefined\<close> is the
  \<open>None\<close> of an \<open>option\<close>. An object is an association list from
  property names to values (a property is looked up with \<open>map_of\<close>).
  Strings are ASCII text. A finite number is a rational (\<open>JNum\<close>); the three
  numbers that are not finite are \<open>JNonFinite\<close>. Arithmetic on numbers is exact:
  the rounding of IEEE doubles is not modelled.
\<close>

datatype nonfinite = NaN | PlusInfinity | MinusInfinity

datatype jsval =
    JNull
  | JBool bool
  | JNum rat
  | JNonFinite nonfinite
  | JStr string
  | JArr "jsval list"
  | JObj "(string \<times> jsval) list"

datatype js_error =
    Error string
  | TypeError string
  | RangeError string
  | StorageFailure
  | HapticsFailure

datatype log_level = LogInfo | LogWarn | LogError

text \<open>
  \<open>platform\<close> holds what the execution context provides and the code only reads:
  the globals \<open>canUseAsyncStorage\<close> inspects, whether a call of the AsyncStorage
  module rejects, whether the haptics module rejects, the engine's
  \<open>JSON.parse\<close> (\<open>None\<close> when it throws a SyntaxError) and \<open>JSON.stringify\<close>,
  the clock (\<open>Date.now()\<close>, milliseconds since the epoch), the offset of local
  time from UTC in milliseconds (taken as constant: no daylight-saving change
  within the times compared) and \<open>Date.parse\<close> (\<open>None\<close> for \<open>NaN\<close>).
  \<open>world\<close> is what the code changes: the key-value slots of AsyncStorage and the
  console.
\<close>

record platform =
  has_window :: bool
  has_document :: bool
  navigator_product :: "string option"
  getItem_rejects :: bool
  setItem_rejects :: bool
  removeItem_rejects :: bool
  haptics_rejects :: bool
  JSON_parse :: "string \<Rightarrow> jsval option"
  JSON_stringify :: "jsval \<Rightarrow> string"
  Date_now :: int
  LocalTZA :: int
  Date_parse :: "string \<Rightarrow> int option"

record world =
  storage :: "string \<Rightarrow> string option"
  console :: "(log_level \<times> string) list"

definition console_log :: "string \<Rightarrow> world \<Rightarrow> world" where
  "console_log msg w = w\<lparr>console := console w @ [(LogInfo, msg)]\<rparr>"

definition console_warn :: "string \<Rightarrow> world \<Rightarrow> world" where
  "console_warn msg w = w\<lparr>console := console w @ [(LogWarn, msg)]\<rparr>"

definition console_error :: "string \<Rightarrow> world \<Rightarrow> world" where
  "console_error msg w = w\<lparr>console := console w @ [(LogError, msg)]\<rparr>"

subsection \<open>utils/environment.ts\<close>

definition isBrowser :: "platform \<Rightarrow> bool" where
  "isBrowser P = (has_window P \<and> has_document P)"

definition isReactNative :: "platform \<Rightarrow> bool" where
  "isReactNative P = (navigator_product P = Some ''ReactNative'')"

definition canUseAsyncStorage :: "platform \<Rightarrow> bool" where
  "canUseAsyncStorage P = (isBrowser P \<or> isReactNative P)"

subsection \<open>The AsyncStorage module\<close>

text \<open>
  An asynchronous call either resolves (\<open>Inr\<close>) or rejects (\<open>Inl\<close>). A rejected
  write leaves the slot as it was.
\<close>

definition AsyncStorage_getItem ::
  "platform \<Rightarrow> string \<Rightarrow> world \<Rightarrow> js_error + string option" where
  "AsyncStorage_getItem P k w =
     (if getItem_rejects P then Inl StorageFailure else Inr (storage w k))"

definition AsyncStorage_setItem ::
  "platform \<Rightarrow> string \<Rightarrow> string \<Rightarrow> world \<Rightarrow> (js_error + unit) \<times> world" where
  "AsyncStorage_setItem P k v w =
     (if setItem_rejects P then (Inl StorageFailure, w)
      else (Inr (), w\<lparr>storage := (storage w)(k \<mapsto> v)\<rparr>))"

definition AsyncStorage_removeItem ::
  "platform \<Rightarrow> string \<Rightarrow> world \<Rightarrow> (js_error + unit) \<times> world" where
  "AsyncStorage_removeItem P k w =
     (if removeItem_rejects P then (Inl StorageFailure, w)
      else (Inr (), w\<lparr>storage := (storage w)(k := None)\<rparr>))"

subsection \<open>Property access and truthiness\<close>

text \<open>
  \<open>js_get v k\<close> is \<open>v[k]\<close> for a value \<open>v\<close> that is neither \<open>null\<close> nor
  \<open>undefined\<close>, for the data property names this program reads (\<open>id\<close>,
  \<open>exercises\<close>, \<open>sets\<close>, \<open>reps\<close>, \<open>weight\<close>, \<open>completed\<close>): none of them is
  defined by a built-in prototype, so only an object can have one.
  \<open>js_member\<close> is the plain member access \<open>v.k\<close>, a TypeError on \<open>null\<close>;
  \<open>js_optional_member\<close> is \<open>v?.k\<close>.
\<close>

fun js_get :: "jsval \<Rightarrow> string \<Rightarrow> jsval option" where
  "js_get (JObj kvs) k = map_of kvs k"
| "js_get _ k = None"

fun js_member :: "jsval \<Rightarrow> string \<Rightarrow> js_error + jsval option" where
  "js_member JNull k = Inl (TypeError ''Cannot read properties of null'')"
| "js_member v k = Inr (js_get v k)"

fun js_optional_member :: "jsval \<Rightarrow> string \<Rightarrow> jsval option" where
  "js_optional_member JNull k = None"
| "js_optional_member v k = js_get v k"

fun Boolean :: "jsval option \<Rightarrow> bool" where
  "Boolean None = False"
| "Boolean (Some JNull) = False"
| "Boolean (Some (JBool b)) = b"
| "Boolean (Some (JNum n)) = (n \<noteq> 0)"
| "Boolean (Some (JNonFinite x)) = (x \<noteq> NaN)"
| "Boolean (Some (JStr s)) = (s \<noteq> [])"
| "Boolean (Some (JArr xs)) = True"
| "Boolean (Some (JObj kvs)) = True"

fun js_of_nullable_string :: "string option \<Rightarrow> jsval" where
  "js_of_nullable_string None = JNull"
| "js_of_nullable_string (Some s) = JStr s"

section \<open>Schedules\<close>

subsection \<open>types/schedule.ts\<close>

datatype ScheduleDayKey =
  Monday | Tuesday | Wednesday | Thursday | Friday | Saturday | Sunday

record ScheduleWeekdayAssignment =
  monday :: "string option"
  tuesday :: "string option"
  wednesday :: "string option"
  thursday :: "string option"
  friday :: "string option"
  saturday :: "string option"
  sunday :: "string option"

record Schedule =
  schedule_id :: string
  schedule_name :: string
  weekdays :: ScheduleWeekdayAssignment

text \<open>The runtime object of a typed schedule, as \<open>JSON.stringify\<close> receives it.\<close>

definition js_of_weekdays :: "ScheduleWeekdayAssignment \<Rightarrow> jsval" where
  "js_of_weekdays a = JObj
     [(''sunday'', js_of_nullable_string (sunday a)),
      (''monday'', js_of_nullable_string (monday a)),
      (''tuesday'', js_of_nullable_string (tuesday a)),
      (''wednesday'', js_of_nullable_string (wednesday a)),
      (''thursday'', js_of_nullable_string (thursday a)),
      (''friday'', js_of_nullable_string (friday a)),
      (''saturday'', js_of_nullable_string (saturday a))]"

definition js_of_Schedule :: "Schedule \<Rightarrow> jsval" where
  "js_of_Schedule s = JObj
     [(''id'', JStr (schedule_id s)),
      (''name'', JStr (schedule_name s)),
      (''weekdays'', js_of_weekdays (weekdays s))]"

subsection \<open>utils/scheduleStorage.ts\<close>

definition SCHEDULES_STORAGE_KEY :: string where
  "SCHEDULES_STORAGE_KEY = ''hercules/schedules''"

definition serializeSchedules :: "platform \<Rightarrow> Schedule list \<Rightarrow> string" where
  "serializeSchedules P schedules = JSON_stringify P (JArr (map js_of_Schedule schedules))"



definition persistStoredSchedules ::
  "platform \<Rightarrow> Schedule list \<Rightarrow> world \<Rightarrow> (js_error + unit) \<times> world" where
  "persistStoredSchedules P schedules w =
     (if \<not> canUseAsyncStorage P
      then (Inr (), console_warn ''[scheduleStorage] persistStoredSchedules skipped because AsyncStorage is unavailable in this environment.'' w)
      else (case AsyncStorage_setItem P SCHEDULES_STORAGE_KEY (serializeSchedules P schedules)
                   (console_log ''SAVING SCHEDULE TO ASYNCSTORAGE:'' w) of
              (Inl e, w1) \<Rightarrow>
                (Inl (Error ''Unable to persist schedules''),
                 console_error ''[scheduleStorage] Failed to persist schedules snapshot'' w1)
            | (Inr u, w1) \<Rightarrow> (Inr (), w1)))"

subsection \<open>store/schedulesStore.ts\<close>

text \<open>
  Each store operation is an \<open>async\<close> function. It runs synchronously up to its
  first \<open>await\<close>, which is the call of the persistence adapter: \<open>_sync\<close> is that
  part, giving the store as every observer sees it while the write is pending and
  the collection handed to the adapter. The operation itself continues with the
  adapter's result; a rejection is caught and logged.
\<close>

record SchedulesState =
  schedules :: "Schedule list"

definition addSchedule_sync :: "Schedule \<Rightarrow> SchedulesState \<Rightarrow> SchedulesState \<times> Schedule list" where
  "addSchedule_sync schedule st =
     (let next = schedule # schedules st in (st\<lparr>schedules := next\<rparr>, next))"

definition addSchedule ::
  "platform \<Rightarrow> Schedule \<Rightarrow> SchedulesState \<Rightarrow> world \<Rightarrow> (js_error + unit) \<times> SchedulesState \<times> world" where
  "addSchedule P schedule st w =
     (case addSchedule_sync schedule st of
        (st1, next) \<Rightarrow>
          (case persistStoredSchedules P next w of
             (Inl e, w1) \<Rightarrow>
               (Inr (), st1, console_error ''[schedulesStore] Failed to persist schedules after add'' w1)
           | (Inr u, w1) \<Rightarrow> (Inr (), st1, w1)))"

definition deleteSchedule_sync :: "string \<Rightarrow> SchedulesState \<Rightarrow> SchedulesState \<times> Schedule list" where
  "deleteSchedule_sync i st =
     (let next = filter (\<lambda>schedule. schedule_id schedule \<noteq> i) (schedules st)
      in (st\<lparr>schedules := next\<rparr>, next))"

definition deleteSchedule ::
  "platform \<Rightarrow> string \<Rightarrow> SchedulesState \<Rightarrow> world \<Rightarrow> (js_error + unit) \<times> SchedulesState \<times> world" where
  "deleteSchedule P i st w =
     (case deleteSchedule_sync i st of
        (st1, next) \<Rightarrow>
          (case persistStoredSchedules P next w of
             (Inl e, w1) \<Rightarrow>
               (Inr (), st1, console_error ''[schedulesStore] Failed to persist schedules after delete'' w1)
           | (Inr u, w1) \<Rightarrow> (Inr (), st1, w1)))"

definition updateSchedule_sync :: "Schedule \<Rightarrow> SchedulesState \<Rightarrow> SchedulesState \<times> Schedule list" where
  "updateSchedule_sync schedule st =
     (let next = map (\<lambda>existing. if schedule_id existing = schedule_id schedule
                                   then schedule else existing) (schedules st)
      in (st\<lparr>schedules := next\<rparr>, next))"

definition updateSchedule ::
  "platform \<Rightarrow> Schedule \<Rightarrow> SchedulesState \<Rightarrow> world \<Rightarrow> (js_error + unit) \<times> SchedulesState \<times> world" where
  "updateSchedule P schedule st w =
     (case updateSchedule_sync schedule st of
        (st1, next) \<Rightarrow>
          (case persistStoredSchedules P next w of
             (Inl e, w1) \<Rightarrow>
               (Inr (), st1, console_error ''[schedulesStore] Failed to persist schedules after update'' w1)
           | (Inr u, w1) \<Rightarrow> (Inr (), st1, w1)))"

definition getSchedules :: "SchedulesState \<Rightarrow> Schedule list" where
  "getSchedules st = schedules st"

section \<open>Workout sessions\<close>

subsection \<open>types/workout.ts\<close>

text \<open>
  A field of type \<open>number\<close> holds any number of the engine, finite or not. The
  timestamps of a workout are kept as whole numbers of milliseconds.
\<close>

datatype number = Finite rat | NonFinite nonfinite

fun js_of_number :: "number \<Rightarrow> jsval" where
  "js_of_number (Finite r) = JNum r"
| "js_of_number (NonFinite x) = JNonFinite x"

record SetLog =
  reps :: number
  weight :: number
  completed :: bool

record WorkoutExercise =
  exercise_name :: string
  exercise_sets :: "SetLog list"

record Workout =
  workout_id :: string
  planId :: "string option"
  date :: string
  startTime :: int
  endTime :: "int option"
  duration :: "int option"
  workout_exercises :: "WorkoutExercise list"

definition js_of_SetLog :: "SetLog \<Rightarrow> jsval" where
  "js_of_SetLog s = JObj
     [(''reps'', js_of_number (reps s)),
      (''weight'', js_of_number (weight s)),
      (''completed'', JBool (completed s))]"

definition js_of_WorkoutExercise :: "WorkoutExercise \<Rightarrow> jsval" where
  "js_of_WorkoutExercise e = JObj
     [(''name'', JStr (exercise_name e)),
      (''sets'', JArr (map js_of_SetLog (exercise_sets e)))]"

text \<open>An optional property that is \<open>undefined\<close> is no property of the object.\<close>

fun optional_number :: "string \<Rightarrow> int option \<Rightarrow> (string \<times> jsval) list" where
  "optional_number k None = []"
| "optional_number k (Some n) = [(k, JNum (of_int n))]"

definition js_of_Workout :: "Workout \<Rightarrow> jsval" where
  "js_of_Workout x = JObj
     ([(''id'', JStr (workout_id x)),
       (''planId'', js_of_nullable_string (planId x)),
       (''date'', JStr (date x)),
       (''startTime'', JNum (of_int (startTime x)))]
      @ optional_number ''endTime'' (endTime x)
      @ optional_number ''duration'' (duration x)
      @ [(''exercises'', JArr (map js_of_WorkoutExercise (workout_exercises x)))])"

subsection \<open>utils/workoutSessionStorage.ts\<close>

definition WORKOUTS_STORAGE_KEY :: string where
  "WORKOUTS_STORAGE_KEY = ''hercules/workouts''"

definition serializeWorkouts :: "platform \<Rightarrow> Workout list \<Rightarrow> string" where
  "serializeWorkouts P ws = JSON_stringify P (JArr (map js_of_Workout ws))"

definition parseWorkouts ::
  "platform \<Rightarrow> string option \<Rightarrow> world \<Rightarrow> jsval list \<times> world" where
  "parseWorkouts P v w =
     (case v of
        None \<Rightarrow> ([], w)
      | Some s \<Rightarrow>
          if s = [] then ([], w)
          else (case JSON_parse P s of
                  None \<Rightarrow> ([], console_error ''[workoutSessionStorage] Failed to parse workouts snapshot'' w)
                | Some (JArr parsed) \<Rightarrow>
                    (filter (\<lambda>workout. Boolean (js_optional_member workout ''id'')) parsed, w)
                | Some _ \<Rightarrow> ([], w)))"

definition loadStoredWorkoutSessions :: "platform \<Rightarrow> world \<Rightarrow> jsval list \<times> world" where
  "loadStoredWorkoutSessions P w =
     (if \<not> canUseAsyncStorage P then ([], w)
      else (case AsyncStorage_getItem P WORKOUTS_STORAGE_KEY w of
              Inl e \<Rightarrow> ([], console_error ''[workoutSessionStorage] Failed to load stored workouts'' w)
            | Inr stored \<Rightarrow> parseWorkouts P stored w))"

definition persistStoredWorkoutSessions ::
  "platform \<Rightarrow> Workout list \<Rightarrow> world \<Rightarrow> (js_error + unit) \<times> world" where
  "persistStoredWorkoutSessions P ws w =
     (if \<not> canUseAsyncStorage P
      then (Inr (), console_warn ''[workoutSessionStorage] persistStoredWorkoutSessions skipped because AsyncStorage is unavailable in this environment.'' w)
      else (case AsyncStorage_setItem P WORKOUTS_STORAGE_KEY (serializeWorkouts P ws) w of
              (Inl e, w1) \<Rightarrow>
                (Inl (Error ''Unable to persist workouts''),
                 console_error ''[workoutSessionStorage] Failed to persist workouts snapshot'' w1)
            | (Inr u, w1) \<Rightarrow> (Inr (), w1)))"

definition clearStoredWorkoutSessions ::
  "platform \<Rightarrow> world \<Rightarrow> (js_error + unit) \<times> world" where
  "clearStoredWorkoutSessions P w =
     (if \<not> canUseAsyncStorage P
      then (Inr (), console_warn ''[workoutSessionStorage] clearStoredWorkoutSessions skipped because AsyncStorage is unavailable in this environment.'' w)
      else (case AsyncStorage_removeItem P WORKOUTS_STORAGE_KEY w of
              (Inl e, w1) \<Rightarrow>
                (Inl (Error ''Unable to clear stored workouts''),
                 console_error ''[workoutSessionStorage] Failed to clear stored workouts'' w1)
            | (Inr u, w1) \<Rightarrow> (Inr (), w1)))"

subsection \<open>store/workoutSessionsStore.ts\<close>

text \<open>
  The collection is declared \<open>Workout[]\<close>. The operations that receive a typed
  workout work on \<open>Workout WorkoutSessionsState\<close>; hydration fills the same
  collection with whatever the slot decodes to, so it is given on
  \<open>jsval WorkoutSessionsState\<close>.
\<close>

record 'w WorkoutSessionsState =
  workouts :: "'w list"

definition addWorkout_sync ::
  "Workout \<Rightarrow> Workout WorkoutSessionsState \<Rightarrow> Workout WorkoutSessionsState \<times> Workout list" where
  "addWorkout_sync workout st =
     (let next = workout # workouts st in (st\<lparr>workouts := next\<rparr>, next))"

definition addWorkout ::
  "platform \<Rightarrow> Workout \<Rightarrow> Workout WorkoutSessionsState \<Rightarrow> world
     \<Rightarrow> (js_error + unit) \<times> Workout WorkoutSessionsState \<times> world" where
  "addWorkout P workout st w =
     (case addWorkout_sync workout st of
        (st1, next) \<Rightarrow>
          (case persistStoredWorkoutSessions P next w of
             (Inl e, w1) \<Rightarrow>
               (Inr (), st1, console_error ''[workoutSessionsStore] Failed to persist workouts after add'' w1)
           | (Inr u, w1) \<Rightarrow> (Inr (), st1, w1)))"

definition updateWorkout_sync ::
  "Workout \<Rightarrow> Workout WorkoutSessionsState \<Rightarrow> Workout WorkoutSessionsState \<times> Workout list" where
  "updateWorkout_sync workout st =
     (let next = map (\<lambda>existing. if workout_id existing = workout_id workout
                                   then workout else existing) (workouts st)
      in (st\<lparr>workouts := next\<rparr>, next))"

definition updateWorkout ::
  "platform \<Rightarrow> Workout \<Rightarrow> Workout WorkoutSessionsState \<Rightarrow> world
     \<Rightarrow> (js_error + unit) \<times> Workout WorkoutSessionsState \<times> world" where
  "updateWorkout P workout st w =
     (case updateWorkout_sync workout st of
        (st1, next) \<Rightarrow>
          (case persistStoredWorkoutSessions P next w of
             (Inl e, w1) \<Rightarrow>
               (Inr (), st1, console_error ''[workoutSessionsStore] Failed to persist workouts after update'' w1)
           | (Inr u, w1) \<Rightarrow> (Inr (), st1, w1)))"

definition deleteWorkout_sync ::
  "string \<Rightarrow> Workout WorkoutSessionsState \<Rightarrow> Workout WorkoutSessionsState \<times> Workout list" where
  "deleteWorkout_sync i st =
     (let next = filter (\<lambda>workout. workout_id workout \<noteq> i) (workouts st)
      in (st\<lparr>workouts := next\<rparr>, next))"

definition deleteWorkout ::
  "platform \<Rightarrow> string \<Rightarrow> Workout WorkoutSessionsState \<Rightarrow> world
     \<Rightarrow> (js_error + unit) \<times> Workout WorkoutSessionsState \<times> world" where
  "deleteWorkout P i st w =
     (case deleteWorkout_sync i st of
        (st1, next) \<Rightarrow>
          (case persistStoredWorkoutSessions P next w of
             (Inl e, w1) \<Rightarrow>
               (Inr (), st1, console_error ''[workoutSessionsStore] Failed to persist workouts after delete'' w1)
           | (Inr u, w1) \<Rightarrow> (Inr (), st1, w1)))"

definition getWorkouts :: "'w WorkoutSessionsState \<Rightarrow> 'w list" where
  "getWorkouts st = workouts st"

definition clearWorkouts ::
  "platform \<Rightarrow> 'w WorkoutSessionsState \<Rightarrow> world
     \<Rightarrow> (js_error + unit) \<times> 'w WorkoutSessionsState \<times> world" where
  "clearWorkouts P st w =
     (let st1 = st\<lparr>workouts := []\<rparr> in
      case clearStoredWorkoutSessions P w of
        (Inl e, w1) \<Rightarrow>
          (Inr (), st1, console_error ''[workoutSessionsStore] Failed to clear stored workouts'' w1)
      | (Inr u, w1) \<Rightarrow> (Inr (), st1, w1))"

section \<open>Text of numbers\<close>

text \<open>\<open>String(n)\<close> for a whole number: decimal digits, a leading minus sign when negative.\<close>

definition digit_char :: "int \<Rightarrow> char" where
  "digit_char d = ''0123456789'' ! nat d"

function decimal_digits :: "int \<Rightarrow> string" where
  "decimal_digits n =
     (if n < 10 then [digit_char n] else decimal_digits (n div 10) @ [digit_char (n mod 10)])"
  by pat_completeness auto
termination
  by (relation "measure nat") auto

declare decimal_digits.simps [simp del]

definition String_of_int :: "int \<Rightarrow> string" where
  "String_of_int i = (if i < 0 then CHR ''-'' # decimal_digits (- i) else decimal_digits i)"

section \<open>A reference JSON codec\<close>

text \<open>
  \<open>JSON.stringify\<close> and \<open>JSON.parse\<close> belong to the engine, so the program is
  modelled for any pair of them (the fields of \<open>platform\<close>). This section gives a
  codec after ECMA-262 (\<open>SerializeJSONProperty\<close>, \<open>QuoteJSONString\<close>) and the
  JSON grammar of ECMA-404, for the values of this model: the writer produces
  compact text, escapes the quote, the backslash and the control characters of
  a string, and writes \<open>null\<close> for a number that is not finite; the reader
  accepts white space between tokens, every escape of the grammar, fractions
  and exponents, and rejects a leading zero and a raw control character in a
  string. A finite number is written in positional decimal notation with all
  its digits (the engine switches to exponent notation from \<open>1e21\<close> on and below
  \<open>1e-6\<close>, and prints the shortest digits that read back as the same double);
  \<open>finite_decimal\<close> says that the digits of a number end, as those of every
  double do. A four-digit hexadecimal escape above \<open>00ff\<close> is outside the
  ASCII text of this model and is refused.
\<close>

definition quote_char :: char where
  "quote_char = CHR 0x22"

definition backslash_char :: char where
  "backslash_char = CHR 0x5C"

definition hex_digit :: "nat \<Rightarrow> char" where
  "hex_digit k = ''0123456789abcdef'' ! k"

definition hex_value :: "char \<Rightarrow> nat option" where
  "hex_value c =
     map_of (zip ''0123456789abcdefABCDEF''
                 [0, 1, 2, 3, 4, 5, 6, 7, 8, 9, 10, 11, 12, 13, 14, 15, 10, 11, 12, 13, 14, 15]) c"

definition json_escape :: "char \<Rightarrow> string" where
  "json_escape c =
     (if c = quote_char then [backslash_char, quote_char]
      else if c = backslash_char then [backslash_char, backslash_char]
      else if c = CHR 0x08 then [backslash_char, CHR ''b'']
      else if c = CHR 0x09 then [backslash_char, CHR ''t'']
      else if c = CHR 0x0A then [backslash_char, CHR ''n'']
      else if c = CHR 0x0C then [backslash_char, CHR ''f'']
      else if c = CHR 0x0D then [backslash_char, CHR ''r'']
      else if (of_char c :: nat) < 32
      then [backslash_char, CHR ''u'', CHR ''0'', CHR ''0'',
            hex_digit (of_char c div 16), hex_digit (of_char c mod 16)]
      else [c])"

definition ref_quote :: "string \<Rightarrow> string" where
  "ref_quote s = quote_char # concat (map json_escape s) @ [quote_char]"

text \<open>
  The digits after the decimal point of \<open>f\<close>, \<open>0 \<le> f < 1\<close>, at most \<open>n\<close> of them;
  \<open>fraction_rest\<close> is what is left of \<open>f\<close> after them. The denominator of a
  number bounds the count of its decimal digits when they end.
\<close>

fun fraction_digits :: "nat \<Rightarrow> rat \<Rightarrow> string" where
  "fraction_digits 0 f = []"
| "fraction_digits (Suc n) f =
     (if f = 0 then []
      else digit_char \<lfloor>10 * f\<rfloor> # fraction_digits n (10 * f - of_int \<lfloor>10 * f\<rfloor>))"


definition fraction_fuel :: "rat \<Rightarrow> nat" where
  "fraction_fuel r = nat (snd (quotient_of r))"


definition ref_number_text :: "rat \<Rightarrow> string" where
  "ref_number_text r =
     (let a = \<bar>r\<bar>;
          ds = fraction_digits (fraction_fuel r) (a - of_int \<lfloor>a\<rfloor>)
      in (if r < 0 then ''-'' else []) @ decimal_digits \<lfloor>a\<rfloor> @ (if ds = [] then [] else ''.'' @ ds))"

fun intersperse_commas :: "string list \<Rightarrow> string" where
  "intersperse_commas [] = []"
| "intersperse_commas [x] = x"
| "intersperse_commas (x # y # ys) = x @ '','' @ intersperse_commas (y # ys)"

fun ref_JSON_stringify :: "jsval \<Rightarrow> string"
  and ref_stringify_list :: "jsval list \<Rightarrow> string list"
  and ref_stringify_members :: "(string \<times> jsval) list \<Rightarrow> string list" where
  "ref_JSON_stringify JNull = ''null''"
| "ref_JSON_stringify (JBool b) = (if b then ''true'' else ''false'')"
| "ref_JSON_stringify (JNum r) = ref_number_text r"
| "ref_JSON_stringify (JNonFinite x) = ''null''"
| "ref_JSON_stringify (JStr s) = ref_quote s"
| "ref_JSON_stringify (JArr xs) = ''['' @ intersperse_commas (ref_stringify_list xs) @ '']''"
| "ref_JSON_stringify (JObj kvs) = ''{'' @ intersperse_commas (ref_stringify_members kvs) @ ''}''"
| "ref_stringify_list [] = []"
| "ref_stringify_list (x # xs) = ref_JSON_stringify x # ref_stringify_list xs"
| "ref_stringify_members [] = []"
| "ref_stringify_members (kv # kvs) =
     (ref_quote (fst kv) @ '':'' @ ref_JSON_stringify (snd kv)) # ref_stringify_members kvs"

definition is_json_space :: "char \<Rightarrow> bool" where
  "is_json_space c = (c \<in> set [CHR 0x20, CHR 0x09, CHR 0x0A, CHR 0x0D])"

definition skip_space :: "string \<Rightarrow> string" where
  "skip_space s = dropWhile is_json_space s"

definition digit_of_char :: "char \<Rightarrow> int option" where
  "digit_of_char c = map_of (zip ''0123456789'' [0, 1, 2, 3, 4, 5, 6, 7, 8, 9]) c"

fun read_digits :: "int \<Rightarrow> string \<Rightarrow> int \<times> string" where
  "read_digits acc [] = (acc, [])"
| "read_digits acc (c # cs) =
     (case digit_of_char c of None \<Rightarrow> (acc, c # cs) | Some d \<Rightarrow> read_digits (10 * acc + d) cs)"

text \<open>The reader.\<close>

definition unescape :: "char \<Rightarrow> char option" where
  "unescape e =
     (if e = quote_char \<or> e = backslash_char \<or> e = CHR ''/'' then Some e
      else if e = CHR ''b'' then Some (CHR 0x08)
      else if e = CHR ''t'' then Some (CHR 0x09)
      else if e = CHR ''n'' then Some (CHR 0x0A)
      else if e = CHR ''f'' then Some (CHR 0x0C)
      else if e = CHR ''r'' then Some (CHR 0x0D)
      else None)"

definition read_hex4 :: "string \<Rightarrow> char option" where
  "read_hex4 s =
     (case map hex_value s of
        [Some a, Some b, Some c, Some d] \<Rightarrow>
          (let n = ((a * 16 + b) * 16 + c) * 16 + d in if n < 256 then Some (char_of n) else None)
      | _ \<Rightarrow> None)"

fun read_string_body :: "string \<Rightarrow> (string \<times> string) option" where
  "read_string_body [] = None"
| "read_string_body (c # cs) =
     (if c = quote_char then Some ([], cs)
      else if c = backslash_char then
        (case cs of
           [] \<Rightarrow> None
         | e # es \<Rightarrow>
             if e = CHR ''u'' then
               (case read_hex4 (take 4 es) of
                  None \<Rightarrow> None
                | Some x \<Rightarrow> map_option (\<lambda>(s, r). (x # s, r)) (read_string_body (drop 4 es)))
             else (case unescape e of
                     None \<Rightarrow> None
                   | Some x \<Rightarrow> map_option (\<lambda>(s, r). (x # s, r)) (read_string_body es)))
      else if (of_char c :: nat) < 32 then None
      else map_option (\<lambda>(s, r). (c # s, r)) (read_string_body cs))"

definition starts_with_digit :: "string \<Rightarrow> bool" where
  "starts_with_digit s = (case s of [] \<Rightarrow> False | c # cs \<Rightarrow> digit_of_char c \<noteq> None)"

fun read_fraction :: "rat \<Rightarrow> rat \<Rightarrow> string \<Rightarrow> rat \<times> string" where
  "read_fraction scale acc [] = (acc, [])"
| "read_fraction scale acc (c # cs) =
     (case digit_of_char c of
        None \<Rightarrow> (acc, c # cs)
      | Some d \<Rightarrow> read_fraction (scale / 10) (acc + of_int d * (scale / 10)) cs)"

definition read_fraction_part :: "rat \<Rightarrow> string \<Rightarrow> (rat \<times> string) option" where
  "read_fraction_part x s =
     (case s of
        [] \<Rightarrow> Some (x, [])
      | c # cs \<Rightarrow>
          if c = CHR ''.'' then (if starts_with_digit cs then Some (read_fraction 1 x cs) else None)
          else Some (x, s))"

definition read_exponent_part :: "rat \<Rightarrow> string \<Rightarrow> (rat \<times> string) option" where
  "read_exponent_part x s =
     (case s of
        [] \<Rightarrow> Some (x, [])
      | c # cs \<Rightarrow>
          if c = CHR ''e'' \<or> c = CHR ''E'' then
            (let negative = (take 1 cs = ''-'');
                 ds = (if take 1 cs = ''-'' \<or> take 1 cs = ''+'' then drop 1 cs else cs)
             in if starts_with_digit ds
                then (case read_digits 0 ds of
                        (k, r) \<Rightarrow> Some (if negative then x / 10 ^ nat k else x * 10 ^ nat k, r))
                else None)
          else Some (x, s))"

definition read_unsigned :: "string \<Rightarrow> (rat \<times> string) option" where
  "read_unsigned s =
     (if \<not> starts_with_digit s then None
      else if take 1 s = ''0'' \<and> starts_with_digit (drop 1 s) then None
      else (case read_digits 0 s of
              (n, r) \<Rightarrow>
                (case read_fraction_part (of_int n) r of
                   None \<Rightarrow> None
                 | Some (x, r') \<Rightarrow> read_exponent_part x r')))"

definition read_number :: "string \<Rightarrow> (jsval \<times> string) option" where
  "read_number s =
     (if take 1 s = ''-'' then map_option (\<lambda>(x, r). (JNum (- x), r)) (read_unsigned (drop 1 s))
      else map_option (\<lambda>(x, r). (JNum x, r)) (read_unsigned s))"

text \<open>
  The reader of values is given fuel: one unit per nested call, each of which
  consumes a character, so the length of the text suffices. A repeated key
  keeps its first position and takes the later value, as an object does.
\<close>

fun ref_read_value :: "nat \<Rightarrow> string \<Rightarrow> (jsval \<times> string) option"
  and ref_read_elements :: "nat \<Rightarrow> string \<Rightarrow> (jsval list \<times> string) option"
  and ref_read_members :: "nat \<Rightarrow> string \<Rightarrow> ((string \<times> jsval) list \<times> string) option" where
  "ref_read_value 0 s = None"
| "ref_read_value (Suc n) s =
     (case skip_space s of
        [] \<Rightarrow> None
      | c # cs \<Rightarrow>
          if c = CHR ''n'' then (if take 3 cs = ''ull'' then Some (JNull, drop 3 cs) else None)
          else if c = CHR ''t'' then (if take 3 cs = ''rue'' then Some (JBool True, drop 3 cs) else None)
          else if c = CHR ''f'' then (if take 4 cs = ''alse'' then Some (JBool False, drop 4 cs) else None)
          else if c = quote_char then map_option (\<lambda>(x, r). (JStr x, r)) (read_string_body cs)
          else if c = CHR ''['' then
            (case skip_space cs of
               [] \<Rightarrow> None
             | d # ds \<Rightarrow> if d = CHR '']'' then Some (JArr [], ds)
                         else map_option (\<lambda>(xs, r). (JArr xs, r)) (ref_read_elements n cs))
          else if c = CHR ''{'' then
            (case skip_space cs of
               [] \<Rightarrow> None
             | d # ds \<Rightarrow> if d = CHR ''}'' then Some (JObj [], ds)
                         else map_option
                                (\<lambda>(kvs, r). (JObj (foldl (\<lambda>acc kv. AList.update (fst kv) (snd kv) acc) [] kvs), r))
                                (ref_read_members n cs))
          else read_number (c # cs))"
| "ref_read_elements 0 s = None"
| "ref_read_elements (Suc n) s =
     (case ref_read_value n s of
        None \<Rightarrow> None
      | Some (v, r) \<Rightarrow>
          (case skip_space r of
             [] \<Rightarrow> None
           | c # cs \<Rightarrow>
               if c = CHR '']'' then Some ([v], cs)
               else if c = CHR '','' then map_option (\<lambda>(vs, r'). (v # vs, r')) (ref_read_elements n cs)
               else None))"
| "ref_read_members 0 s = None"
| "ref_read_members (Suc n) s =
     (case skip_space s of
        [] \<Rightarrow> None
      | q # qs \<Rightarrow>
          if q \<noteq> quote_char then None
          else (case read_string_body qs of
                  None \<Rightarrow> None
                | Some (k, r) \<Rightarrow>
                    (case skip_space r of
                       [] \<Rightarrow> None
                     | c # cs \<Rightarrow>
                         if c \<noteq> CHR '':'' then None
                         else (case ref_read_value n cs of
                                 None \<Rightarrow> None
                               | Some (v, r') \<Rightarrow>
                                   (case skip_space r' of
                                      [] \<Rightarrow> None
                                    | e # es \<Rightarrow>
                                        if e = CHR ''}'' then Some ([(k, v)], es)
                                        else if e = CHR '','' then
                                          map_option (\<lambda>(kvs, r''). ((k, v) # kvs, r'')) (ref_read_members n es)
                                        else None)))))"

definition ref_JSON_parse :: "string \<Rightarrow> jsval option" where
  "ref_JSON_parse s =
     (case ref_read_value (Suc (length s)) s of
        None \<Rightarrow> None
      | Some (v, r) \<Rightarrow> if skip_space r = [] then Some v else None)"



subsection \<open>Numbers that JSON text denotes\<close>



section \<open>Deleting a plan\<close>

subsection \<open>Access to a weekday slot by key\<close>

fun weekday_get :: "ScheduleWeekdayAssignment \<Rightarrow> ScheduleDayKey \<Rightarrow> string option" where
  "weekday_get a Monday = monday a"
| "weekday_get a Tuesday = tuesday a"
| "weekday_get a Wednesday = wednesday a"
| "weekday_get a Thursday = thursday a"
| "weekday_get a Friday = friday a"
| "weekday_get a Saturday = saturday a"
| "weekday_get a Sunday = sunday a"

fun weekday_set ::
  "ScheduleDayKey \<Rightarrow> string option \<Rightarrow> ScheduleWeekdayAssignment \<Rightarrow> ScheduleWeekdayAssignment" where
  "weekday_set Monday v a = a\<lparr>monday := v\<rparr>"
| "weekday_set Tuesday v a = a\<lparr>tuesday := v\<rparr>"
| "weekday_set Wednesday v a = a\<lparr>wednesday := v\<rparr>"
| "weekday_set Thursday v a = a\<lparr>thursday := v\<rparr>"
| "weekday_set Friday v a = a\<lparr>friday := v\<rparr>"
| "weekday_set Saturday v a = a\<lparr>saturday := v\<rparr>"
| "weekday_set Sunday v a = a\<lparr>sunday := v\<rparr>"

text \<open>\<open>Object.keys\<close> of a weekday assignment: its seven keys.\<close>

definition weekday_keys :: "ScheduleDayKey list" where
  "weekday_keys = [Sunday, Monday, Tuesday, Wednesday, Thursday, Friday, Saturday]"

subsection \<open>app/(tabs)/plans.tsx: confirmDeletePlan\<close>

text \<open>
  Of the plans store's \<open>Plan\<close> only the identifier is read. \<open>snapshot\<close> is the
  \<open>schedules\<close> value the component last rendered with; each
  \<open>void updateSchedule(...)\<close> runs against the store as it is at that moment and
  its promise is dropped. (\<open>removePlan\<close> belongs to the plans store and does not
  touch the schedules.)
\<close>

record Plan =
  plan_id :: string
  plan_name :: string

definition clear_day ::
  "string \<Rightarrow> ScheduleDayKey \<Rightarrow> ScheduleWeekdayAssignment \<times> bool \<Rightarrow> ScheduleWeekdayAssignment \<times> bool" where
  "clear_day pid day acc =
     (case acc of (nextWeekdays, didUpdate) \<Rightarrow>
        if weekday_get nextWeekdays day = Some pid
        then (weekday_set day None nextWeekdays, True)
        else (nextWeekdays, didUpdate))"

definition cascade_schedule ::
  "platform \<Rightarrow> string \<Rightarrow> Schedule \<Rightarrow> SchedulesState \<times> world \<Rightarrow> SchedulesState \<times> world" where
  "cascade_schedule P pid schedule sw =
     (case fold (clear_day pid) weekday_keys (weekdays schedule, False) of
        (nextWeekdays, didUpdate) \<Rightarrow>
          if didUpdate
          then snd (updateSchedule P (schedule\<lparr>weekdays := nextWeekdays\<rparr>) (fst sw) (snd sw))
          else sw)"

definition confirmDeletePlan ::
  "platform \<Rightarrow> Plan option \<Rightarrow> Schedule list \<Rightarrow> SchedulesState \<times> world \<Rightarrow> SchedulesState \<times> world" where
  "confirmDeletePlan P pendingDeletePlan snapshot sw =
     (case pendingDeletePlan of
        None \<Rightarrow> sw
      | Some plan \<Rightarrow> fold (cascade_schedule P (plan_id plan)) snapshot sw)"

section \<open>Workout plans\<close>

subsection \<open>types/plan.ts\<close>

record PlanExercise =
  planExercise_id :: string
  planExercise_name :: string
  planExercise_sets :: int

record WorkoutPlan =
  workoutPlan_id :: string
  workoutPlan_name :: string
  workoutPlan_exercises :: "PlanExercise list"
  createdAt :: string

definition js_of_PlanExercise :: "PlanExercise \<Rightarrow> jsval" where
  "js_of_PlanExercise e = JObj
     [(''id'', JStr (planExercise_id e)),
      (''name'', JStr (planExercise_name e)),
      (''sets'', JNum (of_int (planExercise_sets e)))]"

definition js_of_WorkoutPlan :: "WorkoutPlan \<Rightarrow> jsval" where
  "js_of_WorkoutPlan p = JObj
     [(''id'', JStr (workoutPlan_id p)),
      (''name'', JStr (workoutPlan_name p)),
      (''exercises'', JArr (map js_of_PlanExercise (workoutPlan_exercises p))),
      (''createdAt'', JStr (createdAt p))]"

subsection \<open>utils/storage.ts\<close>

definition PLANS_STORAGE_KEY :: string where
  "PLANS_STORAGE_KEY = ''@hercules/plans''"

text \<open>
  \<open>savePlan\<close> serialises stored plans, which are runtime values, together with
  the new typed plan; \<open>serializePlans\<close> is therefore given on runtime values.
\<close>

definition serializePlans :: "platform \<Rightarrow> jsval list \<Rightarrow> string" where
  "serializePlans P plans = JSON_stringify P (JArr plans)"

definition parsePlans ::
  "platform \<Rightarrow> string option \<Rightarrow> world \<Rightarrow> jsval list \<times> world" where
  "parsePlans P v w =
     (case v of
        None \<Rightarrow> ([], w)
      | Some s \<Rightarrow>
          if s = [] then ([], w)
          else (case JSON_parse P s of
                  None \<Rightarrow> ([], console_error ''[storage] Failed to parse plans snapshot'' w)
                | Some (JArr parsed) \<Rightarrow>
                    (filter (\<lambda>plan. Boolean (js_optional_member plan ''id'')) parsed, w)
                | Some _ \<Rightarrow> ([], w)))"

definition getPlans :: "platform \<Rightarrow> world \<Rightarrow> jsval list \<times> world" where
  "getPlans P w =
     (if \<not> canUseAsyncStorage P then ([], w)
      else (case AsyncStorage_getItem P PLANS_STORAGE_KEY w of
              Inl e \<Rightarrow> ([], console_error ''[storage] Failed to load plans'' w)
            | Inr storedPlans \<Rightarrow> parsePlans P storedPlans w))"

text \<open>\<open>Array.prototype.filter\<close> with a predicate that may throw.\<close>

fun js_filter :: "('a \<Rightarrow> js_error + bool) \<Rightarrow> 'a list \<Rightarrow> js_error + 'a list" where
  "js_filter p [] = Inr []"
| "js_filter p (x # xs) =
     (case p x of
        Inl e \<Rightarrow> Inl e
      | Inr b \<Rightarrow> (case js_filter p xs of
                    Inl e \<Rightarrow> Inl e
                  | Inr ys \<Rightarrow> Inr (if b then x # ys else ys)))"

text \<open>\<open>existing.id !== i\<close> for a string \<open>i\<close>: false only when \<open>existing.id\<close> is that string.\<close>

definition id_differs :: "string \<Rightarrow> jsval \<Rightarrow> js_error + bool" where
  "id_differs i existing =
     (case js_member existing ''id'' of
        Inl e \<Rightarrow> Inl e
      | Inr v \<Rightarrow> Inr (v \<noteq> Some (JStr i)))"

definition savePlan :: "platform \<Rightarrow> WorkoutPlan \<Rightarrow> world \<Rightarrow> (js_error + unit) \<times> world" where
  "savePlan P plan w =
     (if \<not> canUseAsyncStorage P
      then (Inr (), console_warn ''[storage] savePlan skipped because AsyncStorage is unavailable in this environment.'' w)
      else (case getPlans P (console_log ''[storage.savePlan] CALLED WITH:'' w) of
              (existingPlans, w1) \<Rightarrow>
                (case js_filter (id_differs (workoutPlan_id plan)) existingPlans of
                   Inl e \<Rightarrow>
                     (Inl e, console_error ''[storage] Failed to save plan''
                               (console_error ''[storage.savePlan] ERROR:'' w1))
                 | Inr filteredPlans \<Rightarrow>
                     (case AsyncStorage_setItem P PLANS_STORAGE_KEY
                             (serializePlans P (filteredPlans @ [js_of_WorkoutPlan plan])) w1 of
                        (Inl e, w2) \<Rightarrow>
                          (Inl e, console_error ''[storage] Failed to save plan''
                                    (console_error ''[storage.savePlan] ERROR:'' w2))
                      | (Inr u, w2) \<Rightarrow>
                          (Inr (), console_log ''[storage.savePlan] SAVED SUCCESSFULLY'' w2)))))"

section \<open>Hydrating the workout sessions\<close>

subsection \<open>Object spread and mapping with a callback that may throw\<close>

text \<open>
  \<open>{...v}\<close> copies the own enumerable properties of \<open>v\<close>: those of an object,
  the indexed elements of an array, the indexed characters of a string, and
  nothing for \<open>null\<close>, a boolean or a number. It never throws.
\<close>

definition indexed :: "'a list \<Rightarrow> (string \<times> 'a) list" where
  "indexed xs = zip (map (\<lambda>i. String_of_int (int i)) [0 ..< length xs]) xs"

fun js_spread :: "jsval \<Rightarrow> (string \<times> jsval) list" where
  "js_spread (JObj kvs) = kvs"
| "js_spread (JArr xs) = indexed xs"
| "js_spread (JStr s) = indexed (map (\<lambda>c. JStr [c]) s)"
| "js_spread _ = []"

fun js_map :: "('a \<Rightarrow> js_error + 'b) \<Rightarrow> 'a list \<Rightarrow> js_error + 'b list" where
  "js_map f [] = Inr []"
| "js_map f (x # xs) =
     (case f x of
        Inl e \<Rightarrow> Inl e
      | Inr y \<Rightarrow> (case js_map f xs of Inl e \<Rightarrow> Inl e | Inr ys \<Rightarrow> Inr (y # ys)))"

text \<open>\<open>typeof v === 'number' ? v : 0\<close>\<close>

fun number_or_zero :: "jsval option \<Rightarrow> jsval" where
  "number_or_zero (Some (JNum n)) = JNum n"
| "number_or_zero (Some (JNonFinite x)) = JNonFinite x"
| "number_or_zero _ = JNum 0"

subsection \<open>store/workoutSessionsStore.ts: hydrateWorkouts\<close>

definition normalize_set :: "jsval \<Rightarrow> js_error + jsval" where
  "normalize_set s =
     (case js_member s ''reps'' of
        Inl e \<Rightarrow> Inl e
      | Inr r \<Rightarrow>
          (case js_member s ''weight'' of
             Inl e \<Rightarrow> Inl e
           | Inr wt \<Rightarrow>
               (case js_member s ''completed'' of
                  Inl e \<Rightarrow> Inl e
                | Inr c \<Rightarrow>
                    Inr (JObj [(''reps'', number_or_zero r),
                               (''weight'', number_or_zero wt),
                               (''completed'', JBool (Boolean c))]))))"

definition normalize_exercise :: "jsval \<Rightarrow> js_error + jsval" where
  "normalize_exercise exercise =
     (case js_member exercise ''sets'' of
        Inl e \<Rightarrow> Inl e
      | Inr sets \<Rightarrow>
          (case (case sets of
                   Some (JArr xs) \<Rightarrow> js_map normalize_set xs
                 | _ \<Rightarrow> Inr []) of
             Inl e \<Rightarrow> Inl e
           | Inr new_sets \<Rightarrow>
               Inr (JObj (AList.update ''sets'' (JArr new_sets) (js_spread exercise)))))"

definition normalize_workout :: "jsval \<Rightarrow> js_error + jsval" where
  "normalize_workout workout =
     (case js_member workout ''exercises'' of
        Inl e \<Rightarrow> Inl e
      | Inr exercises \<Rightarrow>
          (case (case exercises of
                   Some (JArr xs) \<Rightarrow> js_map normalize_exercise xs
                 | _ \<Rightarrow> Inr []) of
             Inl e \<Rightarrow> Inl e
           | Inr new_exercises \<Rightarrow>
               Inr (JObj (AList.update ''exercises'' (JArr new_exercises) (js_spread workout)))))"

definition hydrateWorkouts ::
  "platform \<Rightarrow> jsval WorkoutSessionsState \<Rightarrow> world
     \<Rightarrow> (js_error + unit) \<times> jsval WorkoutSessionsState \<times> world" where
  "hydrateWorkouts P st w =
     (case loadStoredWorkoutSessions P w of
        (stored, w1) \<Rightarrow>
          (case js_map normalize_workout stored of
             Inl e \<Rightarrow>
               (Inr (), st, console_error ''[workoutSessionsStore] Failed to hydrate workouts'' w1)
           | Inr normalized \<Rightarrow> (Inr (), st\<lparr>workouts := normalized\<rparr>, w1)))"

subsection \<open>The hydration invariant, in the words of the specification\<close>

text \<open>
  \<open>array_or_empty v\<close> is \<open>v\<close> when it is an array and the empty sequence
  otherwise. \<open>defaulted_set\<close> has \<open>reps\<close> and \<open>weight\<close> defaulted to \<open>0\<close> when not
  a number and \<open>completed\<close> coerced to a boolean; \<open>defaulted_exercise\<close> and
  \<open>defaulted_workout\<close> keep every other property and replace \<open>sets\<close> and
  \<open>exercises\<close> by the defaulted sequences. \<open>no_null_entries\<close> says that no
  element of an \<open>exercises\<close> array and no element of a \<open>sets\<close> array is \<open>null\<close>.
\<close>

fun array_or_empty :: "jsval option \<Rightarrow> jsval list" where
  "array_or_empty (Some (JArr xs)) = xs"
| "array_or_empty _ = []"

fun is_number :: "jsval option \<Rightarrow> bool" where
  "is_number (Some (JNum n)) = True"
| "is_number (Some (JNonFinite x)) = True"
| "is_number _ = False"

definition defaulted_to_zero :: "jsval option \<Rightarrow> jsval" where
  "defaulted_to_zero v = (if is_number v then the v else JNum 0)"

definition defaulted_set :: "jsval \<Rightarrow> jsval" where
  "defaulted_set s = JObj
     [(''reps'', defaulted_to_zero (js_get s ''reps'')),
      (''weight'', defaulted_to_zero (js_get s ''weight'')),
      (''completed'', JBool (Boolean (js_get s ''completed'')))]"

definition defaulted_exercise :: "jsval \<Rightarrow> jsval" where
  "defaulted_exercise exercise = JObj
     (AList.update ''sets''
        (JArr (map defaulted_set (array_or_empty (js_get exercise ''sets''))))
        (js_spread exercise))"

definition defaulted_workout :: "jsval \<Rightarrow> jsval" where
  "defaulted_workout workout = JObj
     (AList.update ''exercises''
        (JArr (map defaulted_exercise (array_or_empty (js_get workout ''exercises''))))
        (js_spread workout))"

definition no_null_entries :: "jsval list \<Rightarrow> bool" where
  "no_null_entries stored =
     list_all (\<lambda>workout.
        list_all (\<lambda>exercise.
           exercise \<noteq> JNull
           \<and> list_all (\<lambda>s. s \<noteq> JNull) (array_or_empty (js_get exercise ''sets'')))
          (array_or_empty (js_get workout ''exercises'')))
       stored"

section \<open>Catalog search\<close>

subsection \<open>String operations of the engine, on ASCII text\<close>

text \<open>
  On ASCII text \<open>normalize('NFKD')\<close> is the identity and no character lies in the
  combining-mark range that \<open>normalizeSearchText\<close> strips; \<open>\s\<close> matches tab,
  line feed, vertical tab, form feed, carriage return and space.
\<close>

definition is_space :: "char \<Rightarrow> bool" where
  "is_space c = (c \<in> set [CHR 0x09, CHR 0x0A, CHR 0x0B, CHR 0x0C, CHR 0x0D, CHR 0x20])"

definition toLowerCase_char :: "char \<Rightarrow> char" where
  "toLowerCase_char c =
     (case map_of (zip ''ABCDEFGHIJKLMNOPQRSTUVWXYZ'' ''abcdefghijklmnopqrstuvwxyz'') c of
        Some l \<Rightarrow> l
      | None \<Rightarrow> c)"

definition toLowerCase :: "string \<Rightarrow> string" where
  "toLowerCase s = map toLowerCase_char s"

definition is_lower_alnum :: "char \<Rightarrow> bool" where
  "is_lower_alnum c = (c \<in> set ''abcdefghijklmnopqrstuvwxyz0123456789'')"

text \<open>\<open>replace(/\s+/g, ' ')\<close>: every maximal run of white space becomes one space.\<close>

fun collapse_spaces :: "bool \<Rightarrow> string \<Rightarrow> string" where
  "collapse_spaces in_run [] = []"
| "collapse_spaces in_run (c # cs) =
     (if is_space c
      then (if in_run then collapse_spaces True cs else CHR '' '' # collapse_spaces True cs)
      else c # collapse_spaces False cs)"

definition trim :: "string \<Rightarrow> string" where
  "trim s = rev (dropWhile is_space (rev (dropWhile is_space s)))"

text \<open>\<open>s.split(' ')\<close>\<close>

fun split_space :: "string \<Rightarrow> string list" where
  "split_space [] = [[]]"
| "split_space (c # cs) =
     (if c = CHR '' '' then [] # split_space cs
      else (case split_space cs of [] \<Rightarrow> [[c]] | t # ts \<Rightarrow> (c # t) # ts))"

definition startsWith :: "string \<Rightarrow> string \<Rightarrow> bool" where
  "startsWith s t = prefix t s"

fun js_includes :: "string \<Rightarrow> string \<Rightarrow> bool" where
  "js_includes [] t = (t = [])"
| "js_includes (c # cs) t = (prefix t (c # cs) \<or> js_includes cs t)"

subsection \<open>utils/strings.ts\<close>

definition normalizeSearchText :: "string \<Rightarrow> string" where
  "normalizeSearchText v =
     trim (collapse_spaces False
       (map (\<lambda>c. if is_lower_alnum c \<or> is_space c then c else CHR '' '') (toLowerCase v)))"

subsection \<open>types/exercise.ts and hooks/useSemanticExerciseSearch.ts\<close>

record ExerciseCatalogItem =
  exercise_id :: string
  name :: string
  muscleGroup :: string
  filterMuscleGroup :: string
  secondaryMuscleGroups :: "string list"
  equipment :: "string list"
  movementPattern :: string
  difficulty :: string
  isCompound :: bool
  isBodyweight :: bool
  searchIndex :: string

record UseSemanticExerciseSearchOptions =
  limit :: "int option"
  excludeIds :: "string list option"

definition TOKEN_SYNONYMS :: "(string \<times> string list) list" where
  "TOKEN_SYNONYMS =
     [(''chest'', [''pec'', ''pectorals'', ''push'']),
      (''pec'', [''chest'']),
      (''back'', [''pull'', ''lats'', ''posterior'']),
      (''legs'', [''lower'', ''quads'', ''glutes'', ''squat'']),
      (''shoulders'', [''delts'', ''press'']),
      (''hamstrings'', [''posterior'', ''hinge'']),
      (''glutes'', [''posterior'', ''hips'']),
      (''full'', [''total'', ''compound'']),
      (''press'', [''push'']),
      (''row'', [''pull'']),
      (''squat'', [''legs'', ''hinge'']),
      (''deadlift'', [''hinge'', ''posterior'']),
      (''hinge'', [''posterior'', ''deadlift'']),
      (''lunge'', [''single'', ''split'']),
      (''carry'', [''farmer'', ''loaded'']),
      (''rotation'', [''anti-rotation'', ''twist'']),
      (''olympic'', [''power'', ''explosive'']),
      (''arms'', [''biceps'', ''triceps'']),
      (''biceps'', [''arms'']),
      (''triceps'', [''arms''])]"

text \<open>
  \<open>TOKEN_SYNONYMS\<close> is an object literal, so \<open>TOKEN_SYNONYMS[token]\<close> also finds
  what the object inherits from \<open>Object.prototype\<close>. An inherited property holds a
  function or an object: a truthy value that is no array.
\<close>

definition Object_prototype_keys :: "string list" where
  "Object_prototype_keys =
     [''constructor'', ''hasOwnProperty'', ''isPrototypeOf'', ''propertyIsEnumerable'',
      ''toLocaleString'', ''toString'', ''valueOf'', ''__proto__'',
      ''__defineGetter__'', ''__defineSetter__'', ''__lookupGetter__'', ''__lookupSetter__'']"

datatype synonyms_lookup = Undefined | Synonyms "string list" | Inherited

definition TOKEN_SYNONYMS_at :: "string \<Rightarrow> synonyms_lookup" where
  "TOKEN_SYNONYMS_at token =
     (case map_of TOKEN_SYNONYMS token of
        Some synonyms \<Rightarrow> Synonyms synonyms
      | None \<Rightarrow> if token \<in> set Object_prototype_keys then Inherited else Undefined)"

text \<open>A \<open>Set\<close> keeps its elements in insertion order.\<close>

definition Set_add :: "'a \<Rightarrow> 'a list \<Rightarrow> 'a list" where
  "Set_add x xs = (if x \<in> set xs then xs else xs @ [x])"

definition expand_token :: "string \<Rightarrow> js_error + string list \<Rightarrow> js_error + string list" where
  "expand_token token acc =
     (case acc of
        Inl e \<Rightarrow> Inl e
      | Inr expanded \<Rightarrow>
          (case TOKEN_SYNONYMS_at token of
             Undefined \<Rightarrow> Inr expanded
           | Synonyms synonyms \<Rightarrow> Inr (fold Set_add synonyms expanded)
           | Inherited \<Rightarrow> Inl (TypeError ''synonyms.forEach is not a function'')))"

definition expandTokens :: "string list \<Rightarrow> js_error + string list" where
  "expandTokens tokens = fold expand_token tokens (Inr (fold Set_add tokens []))"

definition score_token :: "ExerciseCatalogItem \<Rightarrow> int \<Rightarrow> string \<Rightarrow> int" where
  "score_token exercise score token =
     (let normalizedName = normalizeSearchText (name exercise);
          muscleGroup' = normalizeSearchText (muscleGroup exercise);
          filterMuscleGroup' = normalizeSearchText (filterMuscleGroup exercise);
          secondaryMuscleGroups' = map normalizeSearchText (secondaryMuscleGroups exercise);
          equipment' = map normalizeSearchText (equipment exercise);
          movementPattern' = normalizeSearchText (movementPattern exercise)
      in if token = [] then score
         else if normalizedName = token then score + 10
         else if startsWith normalizedName token then score + 7
         else if js_includes normalizedName token then score + 6
         else if js_includes muscleGroup' token \<or> js_includes filterMuscleGroup' token then score + 5
         else if list_ex (\<lambda>target. js_includes target token) secondaryMuscleGroups' then score + 4
         else if list_ex (\<lambda>item. js_includes item token) equipment' then score + 4
         else if js_includes movementPattern' token then score + 3
         else if token = ''compound'' \<and> isCompound exercise then score + 5
         else if token = ''bodyweight'' \<and> isBodyweight exercise then score + 5
         else if js_includes (searchIndex exercise) token then score + 2
         else score)"

definition scoreExercise :: "ExerciseCatalogItem \<Rightarrow> string list \<Rightarrow> int" where
  "scoreExercise exercise tokens =
     (if length tokens = 0 then 0 else foldl (score_token exercise) 0 tokens)"

text \<open>\<open>xs.slice(0, n)\<close> for a whole number \<open>n\<close>: a negative \<open>n\<close> counts from the end.\<close>

definition slice_to :: "int \<Rightarrow> 'a list \<Rightarrow> 'a list" where
  "slice_to n xs = (if n < 0 then take (nat (int (length xs) + n)) xs else take (nat n) xs)"

text \<open>
  The hook as a function of its arguments (what it returns when the memoised
  computation runs). \<open>Array.prototype.sort\<close> is stable; with the comparator
  \<open>b.score - a.score\<close> it sorts by descending score.
\<close>

definition useSemanticExerciseSearch ::
  "string \<Rightarrow> ExerciseCatalogItem list \<Rightarrow> UseSemanticExerciseSearchOptions option
     \<Rightarrow> js_error + ExerciseCatalogItem list" where
  "useSemanticExerciseSearch query exercises options =
     (let limit' = (case options of None \<Rightarrow> 6 | Some opts \<Rightarrow> (case limit opts of None \<Rightarrow> 6 | Some n \<Rightarrow> n));
          excludeIds' = (case options of None \<Rightarrow> [] | Some opts \<Rightarrow> (case excludeIds opts of None \<Rightarrow> [] | Some ids \<Rightarrow> ids));
          normalizedQuery = normalizeSearchText query
      in if normalizedQuery = [] then Inr []
         else (case expandTokens (filter (\<lambda>t. t \<noteq> []) (split_space normalizedQuery)) of
                 Inl e \<Rightarrow> Inl e
               | Inr tokens \<Rightarrow>
                   Inr (map fst
                     (slice_to limit'
                       (sort_key (\<lambda>entry. - snd entry)
                         (filter (\<lambda>entry. snd entry > 0)
                           (map (\<lambda>exercise. (exercise, scoreExercise exercise tokens))
                             (filter (\<lambda>exercise. exercise_id exercise \<notin> set excludeIds') exercises))))))))"

subsection \<open>The scoring rule in the words of the specification\<close>

text \<open>
  \<open>claimed_token_weight\<close> is the weight of the best-matching field in the
  precedence the specification states, with the flag match ranked directly below
  the primary muscle group.
\<close>

definition claimed_token_weight :: "ExerciseCatalogItem \<Rightarrow> string \<Rightarrow> int" where
  "claimed_token_weight exercise token =
     (if normalizeSearchText (name exercise) = token then 10
      else if startsWith (normalizeSearchText (name exercise)) token then 7
      else if js_includes (normalizeSearchText (name exercise)) token then 6
      else if js_includes (normalizeSearchText (muscleGroup exercise)) token
              \<or> js_includes (normalizeSearchText (filterMuscleGroup exercise)) token then 5
      else if (token = ''compound'' \<and> isCompound exercise)
              \<or> (token = ''bodyweight'' \<and> isBodyweight exercise) then 5
      else if list_ex (\<lambda>target. js_includes (normalizeSearchText target) token)
                (secondaryMuscleGroups exercise) then 4
      else if list_ex (\<lambda>item. js_includes (normalizeSearchText item) token) (equipment exercise) then 4
      else if js_includes (normalizeSearchText (movementPattern exercise)) token then 3
      else if js_includes (searchIndex exercise) token then 2
      else 0)"

text \<open>
  \<open>first_match_weight\<close> is the weight the code gives: the same rules, the flag
  match ranked below the movement pattern, and the empty token weighing nothing.
\<close>

definition first_match_weight :: "ExerciseCatalogItem \<Rightarrow> string \<Rightarrow> int" where
  "first_match_weight exercise token =
     (if token = [] then 0
      else if normalizeSearchText (name exercise) = token then 10
      else if startsWith (normalizeSearchText (name exercise)) token then 7
      else if js_includes (normalizeSearchText (name exercise)) token then 6
      else if js_includes (normalizeSearchText (muscleGroup exercise)) token
              \<or> js_includes (normalizeSearchText (filterMuscleGroup exercise)) token then 5
      else if list_ex (\<lambda>target. js_includes (normalizeSearchText target) token)
                (secondaryMuscleGroups exercise) then 4
      else if list_ex (\<lambda>item. js_includes (normalizeSearchText item) token) (equipment exercise) then 4
      else if js_includes (normalizeSearchText (movementPattern exercise)) token then 3
      else if (token = ''compound'' \<and> isCompound exercise)
              \<or> (token = ''bodyweight'' \<and> isBodyweight exercise) then 5
      else if js_includes (searchIndex exercise) token then 2
      else 0)"

section \<open>Dates\<close>

subsection \<open>Time values and the calendar of ECMAScript\<close>

text \<open>
  A time value is a whole number of milliseconds since the epoch. The functions
  below are those of the ECMAScript specification (Day, DaysInYear,
  DayFromYear, YearFromTime, MonthFromTime, DateFromTime, WeekDay, MakeDay,
  MakeDate, TimeClip). \<open>YearFromDay d\<close> searches upwards for the last year
  that starts on or before day \<open>d\<close>, from an estimate that is never too late.
\<close>

definition msPerDay :: int where "msPerDay = 86400000"

definition Day :: "int \<Rightarrow> int" where "Day t = t div msPerDay"
definition TimeWithinDay :: "int \<Rightarrow> int" where "TimeWithinDay t = t mod msPerDay"

definition DaysInYear :: "int \<Rightarrow> int" where
  "DaysInYear y =
     (if y mod 4 \<noteq> 0 then 365 else if y mod 100 \<noteq> 0 then 366
      else if y mod 400 \<noteq> 0 then 365 else 366)"

definition DayFromYear :: "int \<Rightarrow> int" where
  "DayFromYear y = 365 * (y - 1970) + (y - 1969) div 4 - (y - 1901) div 100 + (y - 1601) div 400"

text \<open>A year has 365 or 366 days; this is what makes the search terminate.\<close>

lemma div_next:
  fixes a n :: int
  assumes "0 < n"
  shows "(a + 1) div n = a div n + (if (a + 1) mod n = 0 then 1 else 0)"
proof -
  define q where "q = a div n"
  define r where "r = a mod n"
  have r: "0 \<le> r" "r < n" using assms by (simp_all add: r_def)
  have a: "a = n * q + r" by (simp add: q_def r_def)
  show ?thesis
  proof (cases "r + 1 = n")
    case True
    then have e: "a + 1 = n * (q + 1) + 0" using a by (simp add: algebra_simps)
    have "(a + 1) div n = q + 1" using assms by (intro int_div_pos_eq [OF e]) simp_all
    moreover have "(a + 1) mod n = 0" using assms by (intro int_mod_pos_eq [OF e]) simp_all
    ultimately show ?thesis by (simp add: q_def)
  next
    case False
    then have lt: "r + 1 < n" using r by simp
    have e: "a + 1 = n * q + (r + 1)" using a by simp
    have "(a + 1) div n = q" using r lt by (intro int_div_pos_eq [OF e]) simp_all
    moreover have "(a + 1) mod n = r + 1" using r lt by (intro int_mod_pos_eq [OF e]) simp_all
    ultimately show ?thesis using r by (simp add: q_def)
  qed
qed

lemma mod_shift:
  fixes y :: int
  shows "(y - 1968) mod 4 = y mod 4" "(y - 1900) mod 100 = y mod 100" "(y - 1600) mod 400 = y mod 400"
proof -
  have "y - 1968 = y + 4 * (- 492)" "y - 1900 = y + 100 * (- 19)" "y - 1600 = y + 400 * (- 4)" by simp_all
  then show "(y - 1968) mod 4 = y mod 4" "(y - 1900) mod 100 = y mod 100" "(y - 1600) mod 400 = y mod 400"
    by (simp_all only: mod_mult_self2)
qed

lemma mod_400_100_4:
  fixes y :: int
  shows "y mod 400 = 0 \<Longrightarrow> y mod 100 = 0" "y mod 100 = 0 \<Longrightarrow> y mod 4 = 0"
proof -
  have "y mod 400 mod 100 = y mod 100" by (rule mod_mod_cancel) simp
  then show "y mod 400 = 0 \<Longrightarrow> y mod 100 = 0" by simp
  have "y mod 100 mod 4 = y mod 4" by (rule mod_mod_cancel) simp
  then show "y mod 100 = 0 \<Longrightarrow> y mod 4 = 0" by simp
qed

lemma DayFromYear_Suc: "DayFromYear (y + 1) = DayFromYear y + DaysInYear y"
proof -
  define A B C where "A = (y - 1969) div 4" and "B = (y - 1901) div 100" and "C = (y - 1601) div 400"
  define i4 i100 i400 :: int where "i4 = (if y mod 4 = 0 then 1 else 0)"
    and "i100 = (if y mod 100 = 0 then 1 else 0)" and "i400 = (if y mod 400 = 0 then 1 else 0)"
  have a: "(y - 1968) div 4 = A + i4"
    using div_next [of 4 "y - 1969"] by (simp add: mod_shift A_def i4_def)
  have b: "(y - 1900) div 100 = B + i100"
    using div_next [of 100 "y - 1901"] by (simp add: mod_shift B_def i100_def)
  have c: "(y - 1600) div 400 = C + i400"
    using div_next [of 400 "y - 1601"] by (simp add: mod_shift C_def i400_def)
  have "y + 1 - 1970 = y - 1969" "y + 1 - 1969 = y - 1968" "y + 1 - 1901 = y - 1900"
       "y + 1 - 1601 = y - 1600" by simp_all
  then have next_year: "DayFromYear (y + 1) = 365 * (y - 1969) + (A + i4) - (B + i100) + (C + i400)"
    unfolding DayFromYear_def by (simp only: a b c)
  have this_year: "DayFromYear y = 365 * (y - 1970) + A - B + C"
    unfolding DayFromYear_def A_def B_def C_def ..
  have days: "DaysInYear y = 365 + i4 - i100 + i400"
    using mod_400_100_4 [of y] by (auto simp: DaysInYear_def i4_def i100_def i400_def)
  show ?thesis unfolding next_year this_year days by simp
qed

lemma DaysInYear_bounds: "365 \<le> DaysInYear y" "DaysInYear y \<le> 366"
  by (simp_all add: DaysInYear_def)

function year_up :: "int \<Rightarrow> int \<Rightarrow> int" where
  "year_up d y = (if DayFromYear (y + 1) \<le> d then year_up d (y + 1) else y)"
  by pat_completeness auto
termination
proof (relation "measure (\<lambda>(d, y). nat (d - DayFromYear y))")
  show "wf (measure (\<lambda>(d, y). nat (d - DayFromYear y)))" by simp
next
  fix d y :: int
  assume "DayFromYear (y + 1) \<le> d"
  then show "((d, y + 1), d, y) \<in> measure (\<lambda>(d, y). nat (d - DayFromYear y))"
    using DaysInYear_bounds(1) [of y] by (simp add: DayFromYear_Suc)
qed

declare year_up.simps [simp del]

definition YearFromDay :: "int \<Rightarrow> int" where
  "YearFromDay d = year_up d (1970 + (if 0 \<le> d then d div 366 else d div 365))"

definition YearFromTime :: "int \<Rightarrow> int" where
  "YearFromTime t = YearFromDay (Day t)"

definition InLeapYear :: "int \<Rightarrow> int" where
  "InLeapYear t = (if DaysInYear (YearFromTime t) = 366 then 1 else 0)"

definition DayWithinYear :: "int \<Rightarrow> int" where
  "DayWithinYear t = Day t - DayFromYear (YearFromTime t)"

definition MonthFromTime :: "int \<Rightarrow> int" where
  "MonthFromTime t =
     (let d = DayWithinYear t; l = InLeapYear t in
      if d < 31 then 0 else if d < 59 + l then 1 else if d < 90 + l then 2
      else if d < 120 + l then 3 else if d < 151 + l then 4 else if d < 181 + l then 5
      else if d < 212 + l then 6 else if d < 243 + l then 7 else if d < 273 + l then 8
      else if d < 304 + l then 9 else if d < 334 + l then 10 else 11)"

definition month_start :: "int \<Rightarrow> int \<Rightarrow> int" where
  "month_start m l =
     (if m = 0 then 0 else if m = 1 then 31 else if m = 2 then 59 + l
      else if m = 3 then 90 + l else if m = 4 then 120 + l else if m = 5 then 151 + l
      else if m = 6 then 181 + l else if m = 7 then 212 + l else if m = 8 then 243 + l
      else if m = 9 then 273 + l else if m = 10 then 304 + l else 334 + l)"

definition DateFromTime :: "int \<Rightarrow> int" where
  "DateFromTime t = DayWithinYear t - month_start (MonthFromTime t) (InLeapYear t) + 1"

definition WeekDay :: "int \<Rightarrow> int" where
  "WeekDay t = (Day t + 4) mod 7"

definition MakeDay :: "int \<Rightarrow> int \<Rightarrow> int \<Rightarrow> int" where
  "MakeDay y m dt =
     (let ym = y + m div 12; mn = m mod 12
      in DayFromYear ym + month_start mn (if DaysInYear ym = 366 then 1 else 0) + dt - 1)"

definition MakeDate :: "int \<Rightarrow> int \<Rightarrow> int" where
  "MakeDate d tm = d * msPerDay + tm"

definition MakeTime :: "int \<Rightarrow> int \<Rightarrow> int \<Rightarrow> int \<Rightarrow> int" where
  "MakeTime h m s ms = h * 3600000 + m * 60000 + s * 1000 + ms"

definition TimeClip :: "int \<Rightarrow> int option" where
  "TimeClip t = (if \<bar>t\<bar> \<le> 8640000000000000 then Some t else None)"

definition LocalTime :: "platform \<Rightarrow> int \<Rightarrow> int" where
  "LocalTime P t = t + LocalTZA P"

definition UTC :: "platform \<Rightarrow> int \<Rightarrow> int" where
  "UTC P t = t - LocalTZA P"

subsection \<open>Date objects\<close>

text \<open>
  A \<open>Date\<close> holds a time value or \<open>NaN\<close> (an invalid date): \<open>None\<close>. A number
  that may be \<open>NaN\<close> is an \<open>int option\<close> as well.
\<close>

type_synonym Date = "int option"

definition Date_of_number :: "int \<Rightarrow> Date" where
  "Date_of_number n = TimeClip n"

definition Date_of_string :: "platform \<Rightarrow> string \<Rightarrow> Date" where
  "Date_of_string P s = (case Date_parse P s of None \<Rightarrow> None | Some t \<Rightarrow> TimeClip t)"

definition getFullYear :: "platform \<Rightarrow> Date \<Rightarrow> int option" where
  "getFullYear P d = map_option (\<lambda>t. YearFromTime (LocalTime P t)) d"

definition getMonth :: "platform \<Rightarrow> Date \<Rightarrow> int option" where
  "getMonth P d = map_option (\<lambda>t. MonthFromTime (LocalTime P t)) d"

definition getDate :: "platform \<Rightarrow> Date \<Rightarrow> int option" where
  "getDate P d = map_option (\<lambda>t. DateFromTime (LocalTime P t)) d"

definition getDay :: "platform \<Rightarrow> Date \<Rightarrow> int option" where
  "getDay P d = map_option (\<lambda>t. WeekDay (LocalTime P t)) d"

definition setHours :: "platform \<Rightarrow> Date \<Rightarrow> int \<Rightarrow> int \<Rightarrow> int \<Rightarrow> int \<Rightarrow> Date" where
  "setHours P d h m s ms =
     (case d of
        None \<Rightarrow> None
      | Some t \<Rightarrow> TimeClip (UTC P (MakeDate (Day (LocalTime P t)) (MakeTime h m s ms))))"

definition setDate :: "platform \<Rightarrow> Date \<Rightarrow> int option \<Rightarrow> Date" where
  "setDate P d dt =
     (case d of
        None \<Rightarrow> None
      | Some t \<Rightarrow>
          (case dt of
             None \<Rightarrow> None
           | Some n \<Rightarrow>
               TimeClip (UTC P (MakeDate
                 (MakeDay (YearFromTime (LocalTime P t)) (MonthFromTime (LocalTime P t)) n)
                 (TimeWithinDay (LocalTime P t))))))"

fun number_sub :: "int option \<Rightarrow> int option \<Rightarrow> int option" where
  "number_sub (Some a) (Some b) = Some (a - b)"
| "number_sub _ _ = None"

fun number_add :: "int option \<Rightarrow> int option \<Rightarrow> int option" where
  "number_add (Some a) (Some b) = Some (a + b)"
| "number_add _ _ = None"

fun String_of_number :: "int option \<Rightarrow> string" where
  "String_of_number None = ''NaN''"
| "String_of_number (Some n) = String_of_int n"

text \<open>\<open>s.padStart(2, '0')\<close>\<close>

definition padStart2 :: "string \<Rightarrow> string" where
  "padStart2 s = replicate (2 - length s) (CHR ''0'') @ s"

subsection \<open>utils/date.ts\<close>

definition getDeviceCurrentDate :: "platform \<Rightarrow> Date" where
  "getDeviceCurrentDate P = Some (Date_now P)"

definition formatDateToLocalISO :: "platform \<Rightarrow> Date \<Rightarrow> string" where
  "formatDateToLocalISO P d =
     (let year = getFullYear P d;
          month = padStart2 (String_of_number (number_add (getMonth P d) (Some 1)));
          day = padStart2 (String_of_number (getDate P d))
      in String_of_number year @ ''-'' @ month @ ''-'' @ day)"

subsection \<open>utils/dashboard.ts\<close>

record WeekDayTracker =
  tracker_id :: string
  label :: string
  tracker_date :: string
  hasWorkout :: bool
  isToday :: bool

definition dayLabels :: "string list" where
  "dayLabels = [''Sun'', ''Mon'', ''Tue'', ''Wed'', ''Thu'', ''Fri'', ''Sat'']"

definition getWorkoutLocalISO :: "platform \<Rightarrow> Workout \<Rightarrow> string option" where
  "getWorkoutLocalISO P workout =
     (if startTime workout \<noteq> 0
      then Some (formatDateToLocalISO P (Date_of_number (startTime workout)))
      else if date workout \<noteq> []
      then Some (formatDateToLocalISO P (Date_of_string P (date workout)))
      else None)"

definition week_day_descriptor ::
  "platform \<Rightarrow> Date \<Rightarrow> string \<Rightarrow> string list \<Rightarrow> string \<times> int \<Rightarrow> WeekDayTracker" where
  "week_day_descriptor P startOfWeek todayISO workoutDates entry =
     (case entry of (label', index) \<Rightarrow>
        (let dayDate = setDate P startOfWeek (number_add (getDate P startOfWeek) (Some index));
             dayISO = formatDateToLocalISO P dayDate
         in \<lparr>tracker_id = dayISO @ ''-'' @ toLowerCase label',
             label = label',
             tracker_date = String_of_number (getDate P dayDate),
             hasWorkout = (dayISO \<in> set workoutDates),
             isToday = (dayISO = todayISO)\<rparr>))"

definition createWeekTracker :: "platform \<Rightarrow> Workout list \<Rightarrow> WeekDayTracker list" where
  "createWeekTracker P sessions =
     (let today = getDeviceCurrentDate P;
          todayISO = formatDateToLocalISO P today;
          startOfWeek = setDate P (setHours P today 0 0 0 0)
                          (number_sub (getDate P today) (getDay P today));
          workoutDates = List.map_filter (getWorkoutLocalISO P) sessions
      in map (week_day_descriptor P startOfWeek todayISO workoutDates)
           (zip dayLabels [0, 1, 2, 3, 4, 5, 6]))"

subsection \<open>The local calendar date, for stating the tracker's properties\<close>

text \<open>
  \<open>local_date P t\<close> is the local calendar date (year, month, day of the month)
  of the time value \<open>t\<close>, and \<open>workout_Date P w\<close> the \<open>Date\<close> from which
  \<open>getWorkoutLocalISO\<close> takes a workout's date, if the workout has one.
\<close>

definition local_date :: "platform \<Rightarrow> int \<Rightarrow> int \<times> int \<times> int" where
  "local_date P t =
     (YearFromTime (LocalTime P t), MonthFromTime (LocalTime P t) + 1, DateFromTime (LocalTime P t))"

definition workout_Date :: "platform \<Rightarrow> Workout \<Rightarrow> Date option" where
  "workout_Date P workout =
     (if startTime workout \<noteq> 0 then Some (Date_of_number (startTime workout))
      else if date workout \<noteq> [] then Some (Date_of_string P (date workout))
      else None)"

section \<open>Saving a plan from the builder screens\<close>

subsection \<open>Date.prototype.toISOString\<close>

text \<open>
  \<open>new Date(x)\<close> for a number \<open>x\<close> (\<open>TimeClip\<close> of the specification: an invalid
  date when \<open>x\<close> is not finite or beyond the range of time values, \<open>x\<close> truncated
  otherwise), and the text of a date in UTC, a RangeError for an invalid date.
\<close>

fun Date_of_js_number :: "number \<Rightarrow> Date" where
  "Date_of_js_number (NonFinite x) = None"
| "Date_of_js_number (Finite r) =
     (if \<bar>r\<bar> > 8640000000000000 then None
      else Some (if r < 0 then - \<lfloor>- r\<rfloor> else \<lfloor>r\<rfloor>))"

definition HourFromTime :: "int \<Rightarrow> int" where
  "HourFromTime t = (t div 3600000) mod 24"

definition MinFromTime :: "int \<Rightarrow> int" where
  "MinFromTime t = (t div 60000) mod 60"

definition SecFromTime :: "int \<Rightarrow> int" where
  "SecFromTime t = (t div 1000) mod 60"

definition msFromTime :: "int \<Rightarrow> int" where
  "msFromTime t = t mod 1000"

definition pad_zeros :: "nat \<Rightarrow> int \<Rightarrow> string" where
  "pad_zeros n i = replicate (n - length (decimal_digits i)) (CHR ''0'') @ decimal_digits i"

definition ISO_year :: "int \<Rightarrow> string" where
  "ISO_year y =
     (if 0 \<le> y \<and> y \<le> 9999 then pad_zeros 4 y
      else (if y < 0 then ''-'' else ''+'') @ pad_zeros 6 \<bar>y\<bar>)"

definition toISOString :: "Date \<Rightarrow> js_error + string" where
  "toISOString d =
     (case d of
        None \<Rightarrow> Inl (RangeError ''Invalid time value'')
      | Some t \<Rightarrow>
          Inr (ISO_year (YearFromTime t) @ ''-'' @ pad_zeros 2 (MonthFromTime t + 1) @ ''-''
               @ pad_zeros 2 (DateFromTime t) @ ''T'' @ pad_zeros 2 (HourFromTime t) @ '':''
               @ pad_zeros 2 (MinFromTime t) @ '':'' @ pad_zeros 2 (SecFromTime t) @ ''.''
               @ pad_zeros 3 (msFromTime t) @ ''Z''))"

subsection \<open>hooks/usePlanSaveHandler.ts\<close>

text \<open>
  The hook receives the builder's values and two callbacks, and takes
  \<open>addPlan\<close> and \<open>updatePlan\<close> from the plans store. The store is not part of
  the sources at hand, so its two actions are parameters like the callbacks: a
  call changes the state \<open>'s\<close> of the screen and of the store, and either
  returns or throws. The handler reads only \<open>id\<close> and \<open>name\<close> of a selected
  exercise. \<open>isSaving\<close> is the flag as the handler's closure sees it; the flag
  returned is the one last set. \<open>random_text\<close> is what
  \<open>Math.random().toString(36).slice(2, 8)\<close> gives in this call.
\<close>

datatype SubmitPlanResult = Result_success | Result_missing_name | Result_no_exercises | Result_error

type_synonym 's callback = "'s \<Rightarrow> (js_error + unit) \<times> 's"

record StorePlanInput =
  input_id :: string
  input_name :: string
  input_exercises :: "ExerciseCatalogItem list"
  input_createdAt :: number

record 's plans_store =
  addPlan :: "StorePlanInput \<Rightarrow> 's callback"
  updatePlan :: "StorePlanInput \<Rightarrow> 's callback"

record 's UsePlanSaveHandlerParams =
  editingPlanId :: "string option"
  planName :: string
  selectedExercises :: "ExerciseCatalogItem list"
  editingPlanCreatedAt :: "number option"
  resetBuilder :: "'s callback"
  onSuccess :: "'s callback option"

definition DEFAULT_PLAN_SET_COUNT :: int where
  "DEFAULT_PLAN_SET_COUNT = 3"

definition createPlanIdentifier :: "platform \<Rightarrow> string \<Rightarrow> string" where
  "createPlanIdentifier P random_text = String_of_int (Date_now P) @ ''-'' @ random_text"

text \<open>\<open>Boolean(editingPlanId)\<close>\<close>

definition isEditing :: "'s UsePlanSaveHandlerParams \<Rightarrow> bool" where
  "isEditing params = (case editingPlanId params of None \<Rightarrow> False | Some i \<Rightarrow> i \<noteq> [])"

definition Haptics_notificationAsync :: "platform \<Rightarrow> js_error + unit" where
  "Haptics_notificationAsync P = (if haptics_rejects P then Inl HapticsFailure else Inr ())"

text \<open>The statements of the \<open>try\<close> block, up to the first that throws or rejects.\<close>

definition handleSavePlan_try ::
  "platform \<Rightarrow> 's plans_store \<Rightarrow> 's UsePlanSaveHandlerParams \<Rightarrow> WorkoutPlan \<Rightarrow> StorePlanInput
     \<Rightarrow> 's \<Rightarrow> world \<Rightarrow> (js_error + unit) \<times> 's \<times> world" where
  "handleSavePlan_try P store params payload input s w =
     (case savePlan P payload w of
        (Inl e, w1) \<Rightarrow> (Inl e, s, w1)
      | (Inr u, w1) \<Rightarrow>
          (case (if isEditing params then updatePlan store input s else addPlan store input s) of
             (Inl e, s1) \<Rightarrow> (Inl e, s1, w1)
           | (Inr u1, s1) \<Rightarrow>
               (case Haptics_notificationAsync P of
                  Inl e \<Rightarrow> (Inl e, s1, w1)
                | Inr u2 \<Rightarrow>
                    (case (if \<not> isEditing params then resetBuilder params s1 else (Inr (), s1)) of
                       (Inl e, s2) \<Rightarrow> (Inl e, s2, w1)
                     | (Inr u3, s2) \<Rightarrow>
                         (case onSuccess params of
                            None \<Rightarrow> (Inr (), s2, w1)
                          | Some f \<Rightarrow>
                              (case f s2 of
                                 (Inl e, s3) \<Rightarrow> (Inl e, s3, w1)
                               | (Inr u4, s3) \<Rightarrow> (Inr (), s3, w1)))))))"

definition handleSavePlan ::
  "platform \<Rightarrow> 's plans_store \<Rightarrow> 's UsePlanSaveHandlerParams \<Rightarrow> string \<Rightarrow> bool
     \<Rightarrow> 's \<Rightarrow> world \<Rightarrow> (js_error + SubmitPlanResult) \<times> bool \<times> 's \<times> world" where
  "handleSavePlan P store params random_text isSaving s w =
     (let trimmedName = trim (planName params) in
      if trimmedName = [] then (Inr Result_missing_name, isSaving, s, w)
      else if selectedExercises params = [] then (Inr Result_no_exercises, isSaving, s, w)
      else if isSaving then (Inr Result_error, isSaving, s, w)
      else
        (let planIdentifier =
               (case editingPlanId params of
                  Some i \<Rightarrow> i
                | None \<Rightarrow> createPlanIdentifier P random_text);
             createdAtTimestamp =
               (case editingPlanCreatedAt params of
                  Some t \<Rightarrow> t
                | None \<Rightarrow> Finite (of_int (Date_now P)));
             normalizedExercises =
               map (\<lambda>exercise. \<lparr>planExercise_id = exercise_id exercise,
                                 planExercise_name = name exercise,
                                 planExercise_sets = DEFAULT_PLAN_SET_COUNT\<rparr>)
                   (selectedExercises params)
         in case toISOString (Date_of_js_number createdAtTimestamp) of
              Inl e \<Rightarrow> (Inl e, True, s, w)
            | Inr created \<Rightarrow>
                (case handleSavePlan_try P store params
                        \<lparr>workoutPlan_id = planIdentifier, workoutPlan_name = trimmedName,
                         workoutPlan_exercises = normalizedExercises, createdAt = created\<rparr>
                        \<lparr>input_id = planIdentifier, input_name = trimmedName,
                         input_exercises = selectedExercises params,
                         input_createdAt = createdAtTimestamp\<rparr>
                        s w of
                   (Inl e, s1, w1) \<Rightarrow>
                     (Inr Result_error, False, s1,
                      console_error ''[usePlanSaveHandler] Failed to save plan'' w1)
                 | (Inr u, s1, w1) \<Rightarrow> (Inr Result_success, False, s1, w1))))"

subsection \<open>hooks/usePlanBuilder.ts\<close>

text \<open>
  \<open>submitPlan\<close> saves the builder's own list of plan exercises.
  \<open>random_integer\<close> is what \<open>Math.round(Math.random() * 1000)\<close> gives in this
  call.
\<close>

definition createPlanId :: "platform \<Rightarrow> int \<Rightarrow> string" where
  "createPlanId P random_integer = String_of_int (Date_now P) @ ''-'' @ String_of_int random_integer"

definition submitPlan ::
  "platform \<Rightarrow> string \<Rightarrow> PlanExercise list \<Rightarrow> int \<Rightarrow> bool \<Rightarrow> world
     \<Rightarrow> (js_error + SubmitPlanResult) \<times> bool \<times> world" where
  "submitPlan P name_text selected random_integer isSaving w =
     (let trimmedName = trim name_text;
          w0 = console_log ''[usePlanBuilder] SUBMITTING PLAN:'' w
      in if trimmedName = [] then (Inr Result_missing_name, isSaving, w0)
         else if selected = [] then (Inr Result_no_exercises, isSaving, w0)
         else
           (case toISOString (Date_of_number (Date_now P)) of
              Inl e \<Rightarrow> (Inl e, True, w0)
            | Inr created \<Rightarrow>
                (case savePlan P \<lparr>workoutPlan_id = createPlanId P random_integer,
                                   workoutPlan_name = trimmedName,
                                   workoutPlan_exercises = selected, createdAt = created\<rparr>
                        (console_log ''[usePlanBuilder] Calling savePlan with:'' w0) of
                   (Inl e, w1) \<Rightarrow>
                     (Inr Result_error, False, console_error ''[usePlanBuilder] failed to save plan'' w1)
                 | (Inr u, w1) \<Rightarrow>
                     (case Haptics_notificationAsync P of
                        Inl e \<Rightarrow>
                          (Inr Result_error, False,
                           console_error ''[usePlanBuilder] failed to save plan'' w1)
                      | Inr u1 \<Rightarrow> (Inr Result_success, False, w1)))))"


section \<open>Sample platforms and data\<close>

text \<open>
  Concrete inputs on which the theorems below are exercised: a React Native
  device whose storage works, one whose writes are rejected, and a few entities
  and payloads.
\<close>

text \<open>
  A stand-in for \<open>Date.parse\<close>: the date-only form \<open>YYYY-MM-DD\<close> is midnight UTC
  of that day, anything else is \<open>NaN\<close>. The device's clock reads
  2024-05-02T10:00:00Z, a Thursday, and its local time is two hours ahead of UTC.
\<close>

definition all_digits :: "string \<Rightarrow> int option" where
  "all_digits s = (case read_digits 0 s of (n, r) \<Rightarrow> if s \<noteq> [] \<and> r = [] then Some n else None)"

definition ref_Date_parse :: "string \<Rightarrow> int option" where
  "ref_Date_parse s =
     (if length s = 10 \<and> s ! 4 = CHR ''-'' \<and> s ! 7 = CHR ''-''
      then (case all_digits (take 4 s) of
              None \<Rightarrow> None
            | Some y \<Rightarrow>
                (case all_digits (take 2 (drop 5 s)) of
                   None \<Rightarrow> None
                 | Some m \<Rightarrow>
                     (case all_digits (drop 8 s) of
                        None \<Rightarrow> None
                      | Some d \<Rightarrow> Some (MakeDate (MakeDay y (m - 1) d) 0))))
      else None)"

definition device :: platform where
  "device = \<lparr>has_window = False, has_document = False,
     navigator_product = Some ''ReactNative'',
     getItem_rejects = False, setItem_rejects = False, removeItem_rejects = False,
     haptics_rejects = False,
     JSON_parse = ref_JSON_parse, JSON_stringify = ref_JSON_stringify,
     Date_now = 1714644000000, LocalTZA = 7200000, Date_parse = ref_Date_parse\<rparr>"


definition empty_world :: world where
  "empty_world = \<lparr>storage = (\<lambda>k. None), console = []\<rparr>"

definition no_plan_week :: ScheduleWeekdayAssignment where
  "no_plan_week = \<lparr>monday = None, tuesday = None, wednesday = None, thursday = None,
     friday = None, saturday = None, sunday = None\<rparr>"

definition schedule_A :: Schedule where
  "schedule_A = \<lparr>schedule_id = ''s1'', schedule_name = ''Push Pull'',
     weekdays = no_plan_week\<lparr>monday := Some ''p1'', thursday := Some ''p2''\<rparr>\<rparr>"

definition schedule_B :: Schedule where
  "schedule_B = \<lparr>schedule_id = ''s2'', schedule_name = ''Legs'',
     weekdays = no_plan_week\<lparr>tuesday := Some ''p2''\<rparr>\<rparr>"




definition schedule_C :: Schedule where
  "schedule_C = \<lparr>schedule_id = ''s3'', schedule_name = ''Arms'',
     weekdays = no_plan_week\<lparr>friday := Some ''p3''\<rparr>\<rparr>"

definition plan_p2 :: Plan where
  "plan_p2 = \<lparr>plan_id = ''p2'', plan_name = ''Pull Day''\<rparr>"

definition plan_push :: WorkoutPlan where
  "plan_push = \<lparr>workoutPlan_id = ''p1'', workoutPlan_name = ''Push'',
     workoutPlan_exercises = [\<lparr>planExercise_id = ''bench'', planExercise_name = ''Bench Press'',
                               planExercise_sets = 3\<rparr>],
     createdAt = ''2024-05-01T10:00:00.000Z''\<rparr>"

definition plan_pull :: WorkoutPlan where
  "plan_pull = \<lparr>workoutPlan_id = ''p2'', workoutPlan_name = ''Pull'',
     workoutPlan_exercises = [\<lparr>planExercise_id = ''row'', planExercise_name = ''Row'',
                               planExercise_sets = 3\<rparr>],
     createdAt = ''2024-05-02T10:00:00.000Z''\<rparr>"

definition plan_push_edited :: WorkoutPlan where
  "plan_push_edited = plan_push\<lparr>workoutPlan_name := ''Push v2''\<rparr>"

definition world_with_workouts_payload :: "string \<Rightarrow> world" where
  "world_with_workouts_payload s = \<lparr>storage = (\<lambda>k. None)(WORKOUTS_STORAGE_KEY \<mapsto> s), console = []\<rparr>"

definition payload_missing_fields :: string where
  "payload_missing_fields =
     ''[{\"id\":\"w1\",\"exercises\":[{\"name\":\"Squat\",\"sets\":[{\"reps\":5},{\"weight\":\"x\",\"completed\":1}]},{\"name\":\"Row\"}]},{\"id\":\"w2\"},{\"name\":\"no id\"}]''"

definition payload_null_exercise :: string where
  "payload_null_exercise =
     ''[{\"id\":\"w1\",\"exercises\":7},{\"id\":\"w2\",\"exercises\":[null]}]''"

definition payload_unparseable :: string where
  "payload_unparseable = ''[{\"id\":''"

definition push_up :: ExerciseCatalogItem where
  "push_up = \<lparr>exercise_id = ''push-up'', name = ''Push Up'', muscleGroup = ''Chest'',
     filterMuscleGroup = ''Chest'', secondaryMuscleGroups = [''Triceps'', ''Shoulders''],
     equipment = [''Bodyweight''], movementPattern = ''Horizontal Push'',
     difficulty = ''Beginner'', isCompound = True, isBodyweight = True,
     searchIndex = ''push up chest triceps shoulders bodyweight horizontal push beginner chest compound bodyweight''\<rparr>"

definition bench_press :: ExerciseCatalogItem where
  "bench_press = \<lparr>exercise_id = ''bench-press'', name = ''Bench Press'', muscleGroup = ''Chest'',
     filterMuscleGroup = ''Chest'', secondaryMuscleGroups = [''Triceps'', ''Shoulders''],
     equipment = [''Barbell'', ''Bench''], movementPattern = ''Horizontal Push'',
     difficulty = ''Intermediate'', isCompound = True, isBodyweight = False,
     searchIndex = ''bench press chest triceps shoulders barbell bench horizontal push intermediate chest compound''\<rparr>"

definition leg_curl :: ExerciseCatalogItem where
  "leg_curl = \<lparr>exercise_id = ''leg-curl'', name = ''Leg Curl'', muscleGroup = ''Hamstrings'',
     filterMuscleGroup = ''Legs'', secondaryMuscleGroups = [],
     equipment = [''Machine''], movementPattern = ''Knee Flexion'',
     difficulty = ''Beginner'', isCompound = False, isBodyweight = False,
     searchIndex = ''leg curl hamstrings machine knee flexion beginner legs''\<rparr>"

definition no_callback :: "unit callback" where
  "no_callback s = (Inr (), s)"

definition plans_store_stub :: "unit plans_store" where
  "plans_store_stub = \<lparr>addPlan = (\<lambda>input. no_callback), updatePlan = (\<lambda>input. no_callback)\<rparr>"

definition new_plan_params :: "unit UsePlanSaveHandlerParams" where
  "new_plan_params = \<lparr>editingPlanId = None, planName = ''  Push day '',
     selectedExercises = [push_up, bench_press], editingPlanCreatedAt = None,
     resetBuilder = no_callback, onSuccess = None\<rparr>"

definition edited_plan_params :: "unit UsePlanSaveHandlerParams" where
  "edited_plan_params = new_plan_params\<lparr>editingPlanId := Some ''p1'',
     editingPlanCreatedAt := Some (NonFinite NaN)\<rparr>"

section \<open>The reference codec reads back what it writes\<close>

subsection \<open>Digits\<close>












subsection \<open>Fractions\<close>






subsection \<open>Numbers\<close>











subsection \<open>Strings\<close>





subsection \<open>Values\<close>

















section \<open>Reading the stored plans\<close>

lemma js_filter_total:
  assumes "\<forall>x\<in>set xs. \<exists>b. p x = Inr b"
  shows "js_filter p xs = Inr (filter (\<lambda>x. p x = Inr True) xs)"
  using assms by (induction xs) (auto split: sum.splits)

lemma parsePlans_not_null: "x \<in> set (fst (parsePlans P v w)) \<Longrightarrow> x \<noteq> JNull"
  by (auto simp: parsePlans_def split: option.splits if_splits jsval.splits)

lemma getPlans_not_null: "x \<in> set (fst (getPlans P w)) \<Longrightarrow> x \<noteq> JNull"
  using parsePlans_not_null
  by (auto simp: getPlans_def split: if_splits sum.splits)

lemma getPlans_console: "fst (getPlans P (console_log m w)) = fst (getPlans P w)"
  by (simp add: getPlans_def parsePlans_def AsyncStorage_getItem_def console_log_def console_error_def
       split: option.splits jsval.splits)

lemma getPlans_storage: "storage (snd (getPlans P w)) = storage w"
  by (simp add: getPlans_def parsePlans_def AsyncStorage_getItem_def console_error_def
       split: option.splits jsval.splits)

lemma id_differs_not_null: "x \<noteq> JNull \<Longrightarrow> id_differs i x = Inr (js_get x ''id'' \<noteq> Some (JStr i))"
  by (cases x) (simp_all add: id_differs_def)

lemma filter_existing:
  "js_filter (id_differs i) (fst (getPlans P w))
     = Inr (filter (\<lambda>e. js_get e ''id'' \<noteq> Some (JStr i)) (fst (getPlans P w)))"
proof -
  have "\<forall>x\<in>set (fst (getPlans P w)). \<exists>b. id_differs i x = Inr b"
    using getPlans_not_null id_differs_not_null by blast
  from js_filter_total [OF this]
  have "js_filter (id_differs i) (fst (getPlans P w))
          = Inr (filter (\<lambda>x. id_differs i x = Inr True) (fst (getPlans P w)))" .
  moreover have "filter (\<lambda>x. id_differs i x = Inr True) (fst (getPlans P w))
          = filter (\<lambda>e. js_get e ''id'' \<noteq> Some (JStr i)) (fst (getPlans P w))"
    using getPlans_not_null id_differs_not_null by (intro filter_cong) auto
  ultimately show ?thesis by simp
qed

section \<open>Properties of the entity stores\<close>



lemma store_operations_resolve:
  "fst (addSchedule P x st w) = Inr ()"
  "fst (updateSchedule P x st w) = Inr ()"
  "fst (deleteSchedule P i st w) = Inr ()"
  "fst (addWorkout P y wt w) = Inr ()"
  "fst (updateWorkout P y wt w) = Inr ()"
  "fst (deleteWorkout P i wt w) = Inr ()"
  by (simp_all add: addSchedule_def updateSchedule_def deleteSchedule_def
        addWorkout_def updateWorkout_def deleteWorkout_def
        split: prod.splits sum.splits)

lemma store_operations_keep_sync_state:
  "fst (snd (addSchedule P x st w)) = fst (addSchedule_sync x st)"
  "fst (snd (updateSchedule P x st w)) = fst (updateSchedule_sync x st)"
  "fst (snd (deleteSchedule P i st w)) = fst (deleteSchedule_sync i st)"
  "fst (snd (addWorkout P y wt w)) = fst (addWorkout_sync y wt)"
  "fst (snd (updateWorkout P y wt w)) = fst (updateWorkout_sync y wt)"
  "fst (snd (deleteWorkout P i wt w)) = fst (deleteWorkout_sync i wt)"
  by (simp_all add: addSchedule_def updateSchedule_def deleteSchedule_def
        addWorkout_def updateWorkout_def deleteWorkout_def
        split: prod.splits sum.splits)

text \<open>
  C1. In both stores, \<open>add\<close> puts the new item in front of the current
  collection: the store holds \<open>x # C\<close> already at the \<open>await\<close> of the persist call
  (the state \<open>_sync\<close> returns, which is also the collection handed to the adapter),
  and still holds it when the operation has finished, whatever the adapter did.
\<close>

theorem add_prepends_and_is_visible_before_persist:
  "schedules (fst (addSchedule_sync x st)) = x # schedules st
   \<and> snd (addSchedule_sync x st) = x # schedules st
   \<and> schedules (fst (snd (addSchedule P x st w))) = x # schedules st
   \<and> workouts (fst (addWorkout_sync y wt)) = y # workouts wt
   \<and> snd (addWorkout_sync y wt) = y # workouts wt
   \<and> workouts (fst (snd (addWorkout P y wt w))) = y # workouts wt"
  by (simp add: store_operations_keep_sync_state addSchedule_sync_def addWorkout_sync_def Let_def)

lemma savePlan_rejected:
  assumes "canUseAsyncStorage P" and "setItem_rejects P"
  shows "savePlan P plan w =
           (Inl StorageFailure,
            console_error ''[storage] Failed to save plan''
              (console_error ''[storage.savePlan] ERROR:''
                 (snd (getPlans P (console_log ''[storage.savePlan] CALLED WITH:'' w)))))"
proof -
  obtain ex w1 where g: "getPlans P (console_log ''[storage.savePlan] CALLED WITH:'' w) = (ex, w1)"
    by (cases "getPlans P (console_log ''[storage.savePlan] CALLED WITH:'' w)")
  have "\<forall>x\<in>set ex. \<exists>b. id_differs (workoutPlan_id plan) x = Inr b"
    using getPlans_not_null [of _ P "console_log ''[storage.savePlan] CALLED WITH:'' w"] g
      id_differs_not_null by fastforce
  from js_filter_total [OF this] show ?thesis
    using assms g by (simp add: savePlan_def AsyncStorage_setItem_def)
qed




section \<open>Deleting a plan clears the schedule slots that reference it\<close>

lemma weekday_get_set: "weekday_get (weekday_set k v a) d = (if d = k then v else weekday_get a d)"
  by (cases k; cases d; simp)

lemma clear_day_pair:
  "clear_day p k (a, b) = (if weekday_get a k = Some p then (weekday_set k None a, True) else (a, b))"
  by (simp add: clear_day_def)

lemma fold_clear_day:
  "fold (clear_day p) ks (a, b) = (a', b') \<Longrightarrow>
     (\<forall>d. weekday_get a' d = (if d \<in> set ks \<and> weekday_get a d = Some p then None else weekday_get a d))
     \<and> (b' \<longleftrightarrow> b \<or> (\<exists>d\<in>set ks. weekday_get a d = Some p))"
proof (induction ks arbitrary: a b)
  case Nil
  then show ?case by simp
next
  case (Cons k ks)
  show ?case
  proof (cases "weekday_get a k = Some p")
    case True
    with Cons.prems have "fold (clear_day p) ks (weekday_set k None a, True) = (a', b')"
      by (simp add: clear_day_pair)
    from Cons.IH [OF this] True show ?thesis
      by (auto simp: weekday_get_set)
  next
    case False
    with Cons.prems have "fold (clear_day p) ks (a, b) = (a', b')"
      by (simp add: clear_day_pair)
    from Cons.IH [OF this] False show ?thesis
      by auto
  qed
qed

lemma set_weekday_keys: "d \<in> set weekday_keys"
  by (cases d) (simp_all add: weekday_keys_def)

text \<open>What the cascade makes of one schedule.\<close>

definition cleared :: "string \<Rightarrow> Schedule \<Rightarrow> Schedule" where
  "cleared p S = (case fold (clear_day p) weekday_keys (weekdays S, False) of
      (a, b) \<Rightarrow> if b then S\<lparr>weekdays := a\<rparr> else S)"

lemma cleared_id: "schedule_id (cleared p S) = schedule_id S"
  by (simp add: cleared_def split: prod.splits)

lemma cascade_schedule_state:
  "schedules (fst (cascade_schedule P p S (st, w))) =
     (if snd (fold (clear_day p) weekday_keys (weekdays S, False))
      then map (\<lambda>e. if schedule_id e = schedule_id S then cleared p S else e) (schedules st)
      else schedules st)"
  by (cases "fold (clear_day p) weekday_keys (weekdays S, False)")
     (simp add: cascade_schedule_def cleared_def store_operations_keep_sync_state
        updateSchedule_sync_def Let_def)

lemma cleared_unchanged:
  "\<not> snd (fold (clear_day p) weekday_keys (weekdays S, False)) \<Longrightarrow> cleared p S = S"
  by (cases "fold (clear_day p) weekday_keys (weekdays S, False)") (simp add: cleared_def)

lemma fold_cascade:
  assumes "distinct (map schedule_id xs)" and "set xs \<subseteq> set ys" and "distinct (map schedule_id ys)"
  shows "schedules (fst (fold (cascade_schedule P p) xs (\<lparr>schedules = ys\<rparr>, w))) =
           map (\<lambda>y. if y \<in> set xs then cleared p y else y) ys"
  using assms
proof (induction xs arbitrary: ys w)
  case Nil
  then show ?case by simp
next
  case (Cons x xs)
  let ?ys' = "map (\<lambda>e. if schedule_id e = schedule_id x then cleared p x else e) ys"
  obtain st1 w1 where step: "cascade_schedule P p x (\<lparr>schedules = ys\<rparr>, w) = (st1, w1)"
    by (cases "cascade_schedule P p x (\<lparr>schedules = ys\<rparr>, w)")
  have same: "\<And>e. e \<in> set ys \<Longrightarrow> schedule_id e = schedule_id x \<longleftrightarrow> e = x"
    using Cons.prems(2,3) by (auto simp: distinct_map inj_on_def)
  have ys': "?ys' = map (\<lambda>e. if e = x then cleared p x else e) ys"
    using same by (intro map_cong) auto
  have st1: "schedules st1 = ?ys'"
  proof (cases "snd (fold (clear_day p) weekday_keys (weekdays x, False))")
    case True
    then show ?thesis
      using cascade_schedule_state [of P p x "\<lparr>schedules = ys\<rparr>" w] step by simp
  next
    case False
    then have "schedules st1 = ys"
      using cascade_schedule_state [of P p x "\<lparr>schedules = ys\<rparr>" w] step by simp
    moreover have "map (\<lambda>e. if e = x then cleared p x else e) ys = ys"
      using cleared_unchanged [OF False] by (intro map_idI) auto
    ultimately show ?thesis using ys' by simp
  qed
  then have st1': "st1 = \<lparr>schedules = ?ys'\<rparr>"
    by (cases st1) simp
  have d1: "distinct (map schedule_id xs)" using Cons.prems(1) by simp
  have notin: "x \<notin> set xs" "cleared p x \<notin> set xs"
    using Cons.prems(1) by (auto simp: cleared_id image_iff)
  have sub: "set xs \<subseteq> set ?ys'"
    using Cons.prems(2) notin by (auto simp: ys' image_iff)
  have d2: "distinct (map schedule_id ?ys')"
  proof -
    have "map schedule_id ?ys' = map schedule_id ys"
      by (induction ys) (auto simp: cleared_id)
    then show ?thesis using Cons.prems(3) by (simp only:)
  qed
  have "schedules (fst (fold (cascade_schedule P p) (x # xs) (\<lparr>schedules = ys\<rparr>, w)))
        = schedules (fst (fold (cascade_schedule P p) xs (\<lparr>schedules = ?ys'\<rparr>, w1)))"
    using step st1' by simp
  also have "\<dots> = map (\<lambda>y. if y \<in> set xs then cleared p y else y) ?ys'"
    by (rule Cons.IH [OF d1 sub d2])
  also have "\<dots> = map (\<lambda>y. if y \<in> set (x # xs) then cleared p y else y) ys"
    unfolding ys' using notin by (auto simp: comp_def)
  finally show ?case .
qed

text \<open>
  C5. Let the identifiers of the stored schedules be distinct (\<open>id\<close> is the
  identity of a schedule) and let the component's snapshot be the store's
  collection. After \<open>confirmDeletePlan\<close> for plan \<open>p\<close> the store holds the same
  schedules at the same positions, with the same \<open>id\<close> and \<open>name\<close>; a weekday slot
  is \<open>null\<close> exactly where it referenced \<open>p\<close> and every other slot is as before; a
  schedule that references \<open>p\<close> in no slot is unchanged.
\<close>

theorem delete_plan_nulls_exactly_the_referencing_slots:
  assumes "distinct (map schedule_id (schedules st))"
  shows
   "length (schedules (fst (confirmDeletePlan P (Some plan) (schedules st) (st, w))))
      = length (schedules st)
    \<and> (\<forall>k d. k < length (schedules st) \<longrightarrow>
          schedule_id (schedules (fst (confirmDeletePlan P (Some plan) (schedules st) (st, w))) ! k)
            = schedule_id (schedules st ! k)
        \<and> schedule_name (schedules (fst (confirmDeletePlan P (Some plan) (schedules st) (st, w))) ! k)
            = schedule_name (schedules st ! k)
        \<and> weekday_get (weekdays (schedules (fst (confirmDeletePlan P (Some plan) (schedules st) (st, w))) ! k)) d
            = (if weekday_get (weekdays (schedules st ! k)) d = Some (plan_id plan) then None
               else weekday_get (weekdays (schedules st ! k)) d)
        \<and> ((\<forall>d'. weekday_get (weekdays (schedules st ! k)) d' \<noteq> Some (plan_id plan)) \<longrightarrow>
             schedules (fst (confirmDeletePlan P (Some plan) (schedules st) (st, w))) ! k
               = schedules st ! k))"
proof -
  let ?p = "plan_id plan"
  let ?ys = "schedules st"
  have st: "st = \<lparr>schedules = ?ys\<rparr>" by (cases st) simp
  have "schedules (fst (fold (cascade_schedule P ?p) ?ys (\<lparr>schedules = ?ys\<rparr>, w)))
          = map (\<lambda>y. if y \<in> set ?ys then cleared ?p y else y) ?ys"
    by (rule fold_cascade [OF assms subset_refl assms])
  also have "\<dots> = map (cleared ?p) ?ys"
    by (intro map_cong) auto
  finally have after:
    "schedules (fst (confirmDeletePlan P (Some plan) ?ys (st, w))) = map (cleared ?p) ?ys"
    using st by (simp add: confirmDeletePlan_def)
  have slots: "weekday_get (weekdays (cleared ?p S)) d =
      (if weekday_get (weekdays S) d = Some ?p then None else weekday_get (weekdays S) d)" for S d
  proof (cases "fold (clear_day ?p) weekday_keys (weekdays S, False)")
    case (Pair a b)
    from fold_clear_day [OF Pair] show ?thesis
      using Pair by (auto simp: cleared_def set_weekday_keys)
  qed
  have name: "schedule_name (cleared ?p S) = schedule_name S" for S
    by (simp add: cleared_def split: prod.splits)
  have unchanged: "cleared ?p S = S" if "\<forall>d'. weekday_get (weekdays S) d' \<noteq> Some ?p" for S
  proof (cases "fold (clear_day ?p) weekday_keys (weekdays S, False)")
    case (Pair a b)
    from fold_clear_day [OF Pair] that have "\<not> b" by simp
    with Pair show ?thesis by (simp add: cleared_def)
  qed
  show ?thesis
    unfolding after by (simp add: cleared_id name slots unchanged)
qed

theorem delete_plan_witness:
  "distinct (map schedule_id [schedule_A, schedule_B, schedule_C])
   \<and> weekday_get (weekdays (schedules (fst (confirmDeletePlan device (Some plan_p2)
          [schedule_A, schedule_B, schedule_C]
          (\<lparr>schedules = [schedule_A, schedule_B, schedule_C]\<rparr>, empty_world))) ! 0)) Thursday = None
   \<and> weekday_get (weekdays (schedules (fst (confirmDeletePlan device (Some plan_p2)
          [schedule_A, schedule_B, schedule_C]
          (\<lparr>schedules = [schedule_A, schedule_B, schedule_C]\<rparr>, empty_world))) ! 0)) Monday = Some ''p1''
   \<and> schedules (fst (confirmDeletePlan device (Some plan_p2)
          [schedule_A, schedule_B, schedule_C]
          (\<lparr>schedules = [schedule_A, schedule_B, schedule_C]\<rparr>, empty_world))) ! 2 = schedule_C"
proof -
  have ids: "distinct (map schedule_id (schedules \<lparr>schedules = [schedule_A, schedule_B, schedule_C]\<rparr>))"
    by (simp add: schedule_A_def schedule_B_def schedule_C_def)
  have C: "\<forall>d'. weekday_get (weekdays schedule_C) d' \<noteq> Some (plan_id plan_p2)"
  proof
    fix d' show "weekday_get (weekdays schedule_C) d' \<noteq> Some (plan_id plan_p2)"
      by (cases d') (simp_all add: schedule_C_def no_plan_week_def plan_p2_def)
  qed
  note inst = delete_plan_nulls_exactly_the_referencing_slots [OF ids, of device plan_p2 empty_world]
  from inst have k0: "\<And>d. weekday_get (weekdays (schedules (fst (confirmDeletePlan device (Some plan_p2)
          [schedule_A, schedule_B, schedule_C]
          (\<lparr>schedules = [schedule_A, schedule_B, schedule_C]\<rparr>, empty_world))) ! 0)) d
      = (if weekday_get (weekdays schedule_A) d = Some (plan_id plan_p2) then None
         else weekday_get (weekdays schedule_A) d)"
    by simp
  from inst C have k2: "schedules (fst (confirmDeletePlan device (Some plan_p2)
          [schedule_A, schedule_B, schedule_C]
          (\<lparr>schedules = [schedule_A, schedule_B, schedule_C]\<rparr>, empty_world))) ! 2 = schedule_C"
    by simp
  show ?thesis
    using ids k2 k0 [of Thursday] k0 [of Monday]
    by (simp add: schedule_A_def no_plan_week_def plan_p2_def)
qed

section \<open>The persistence round trip\<close>













section \<open>Saving a plan\<close>

text \<open>
  C10. When storage is usable and the write succeeds, \<open>savePlan\<close> resolves and
  the plans slot then holds the serialised array made of the plans \<open>getPlans\<close>
  returned whose \<open>id\<close> is not the saved plan's, in their order, followed by the
  saved plan: a plan saved again leaves its place and becomes the last element.
\<close>

theorem savePlan_moves_plan_to_the_end:
  assumes "canUseAsyncStorage P" and "\<not> setItem_rejects P"
  shows "fst (savePlan P plan w) = Inr ()
    \<and> storage (snd (savePlan P plan w)) PLANS_STORAGE_KEY =
        Some (JSON_stringify P (JArr
          (filter (\<lambda>existing. js_get existing ''id'' \<noteq> Some (JStr (workoutPlan_id plan)))
             (fst (getPlans P w))
           @ [js_of_WorkoutPlan plan])))"
proof -
  obtain ex w1 where g: "getPlans P (console_log ''[storage.savePlan] CALLED WITH:'' w) = (ex, w1)"
    by (cases "getPlans P (console_log ''[storage.savePlan] CALLED WITH:'' w)")
  have ex: "ex = fst (getPlans P w)"
    using g getPlans_console [of P "''[storage.savePlan] CALLED WITH:''" w] by simp
  have f: "js_filter (id_differs (workoutPlan_id plan)) ex
         = Inr (filter (\<lambda>e. js_get e ''id'' \<noteq> Some (JStr (workoutPlan_id plan))) ex)"
    unfolding ex by (rule filter_existing)
  show ?thesis
    using assms g f
    by (simp add: savePlan_def AsyncStorage_setItem_def serializePlans_def console_log_def ex)
qed

theorem savePlan_witness:
  "canUseAsyncStorage device \<and> \<not> setItem_rejects device
   \<and> storage (snd (savePlan device plan_push_edited
         (snd (savePlan device plan_pull (snd (savePlan device plan_push empty_world))))))
       PLANS_STORAGE_KEY
     = Some (JSON_stringify device (JArr [js_of_WorkoutPlan plan_pull, js_of_WorkoutPlan plan_push_edited]))"
proof -
  have h1: "canUseAsyncStorage device" by code_simp
  have h2: "\<not> setItem_rejects device" by code_simp
  have before: "fst (getPlans device (snd (savePlan device plan_pull (snd (savePlan device plan_push empty_world)))))
      = [js_of_WorkoutPlan plan_push, js_of_WorkoutPlan plan_pull]"
    by code_simp
  have keep: "filter (\<lambda>existing. js_get existing ''id'' \<noteq> Some (JStr (workoutPlan_id plan_push_edited)))
       [js_of_WorkoutPlan plan_push, js_of_WorkoutPlan plan_pull] = [js_of_WorkoutPlan plan_pull]"
    by (simp add: js_of_WorkoutPlan_def plan_push_def plan_pull_def plan_push_edited_def)
  note inst = savePlan_moves_plan_to_the_end [OF h1 h2, of plan_push_edited
        "snd (savePlan device plan_pull (snd (savePlan device plan_push empty_world)))"]
  have "storage (snd (savePlan device plan_push_edited
         (snd (savePlan device plan_pull (snd (savePlan device plan_push empty_world))))))
       PLANS_STORAGE_KEY
     = Some (JSON_stringify device (JArr ([js_of_WorkoutPlan plan_pull] @ [js_of_WorkoutPlan plan_push_edited])))"
    using inst unfolding before keep by (rule conjunct2)
  then show ?thesis using h1 h2 by simp
qed

section \<open>Hydration of the workout sessions\<close>

lemma js_map_Inr:
  assumes "\<forall>x\<in>set xs. f x = Inr (g x)"
  shows "js_map f xs = Inr (map g xs)"
  using assms by (induction xs) simp_all

lemma js_map_Inl:
  assumes "x \<in> set xs" and "f x = Inl e"
  shows "\<exists>e'. js_map f xs = Inl e'"
  using assms by (induction xs) (auto split: sum.splits)

lemma number_or_zero_defaulted: "number_or_zero v = defaulted_to_zero v"
  by (cases v rule: number_or_zero.cases) (simp_all add: defaulted_to_zero_def)

lemma normalize_set_not_null: "s \<noteq> JNull \<Longrightarrow> normalize_set s = Inr (defaulted_set s)"
  by (cases s) (simp_all add: normalize_set_def defaulted_set_def number_or_zero_defaulted)

lemma normalize_set_null: "normalize_set JNull = Inl (TypeError ''Cannot read properties of null'')"
  by (simp add: normalize_set_def)

lemma normalize_exercise_ok:
  assumes "exercise \<noteq> JNull"
    and "list_all (\<lambda>s. s \<noteq> JNull) (array_or_empty (js_get exercise ''sets''))"
  shows "normalize_exercise exercise = Inr (defaulted_exercise exercise)"
proof -
  have m: "js_member exercise ''sets'' = Inr (js_get exercise ''sets'')"
    using assms(1) by (cases exercise) simp_all
  show ?thesis
  proof (cases "js_get exercise ''sets''")
    case None
    then show ?thesis by (simp add: normalize_exercise_def defaulted_exercise_def m)
  next
    case (Some v)
    show ?thesis
    proof (cases v)
      case (JArr xs)
      with Some assms(2) have "\<forall>x\<in>set xs. normalize_set x = Inr (defaulted_set x)"
        by (simp add: list_all_iff normalize_set_not_null)
      from js_map_Inr [OF this] Some JArr show ?thesis
        by (simp add: normalize_exercise_def defaulted_exercise_def m)
    qed (use Some in \<open>simp_all add: normalize_exercise_def defaulted_exercise_def m\<close>)
  qed
qed

lemma normalize_exercise_fails:
  assumes "exercise = JNull
      \<or> \<not> list_all (\<lambda>s. s \<noteq> JNull) (array_or_empty (js_get exercise ''sets''))"
  shows "\<exists>e. normalize_exercise exercise = Inl e"
proof (cases "exercise = JNull")
  case True
  then show ?thesis by (simp add: normalize_exercise_def)
next
  case False
  then have m: "js_member exercise ''sets'' = Inr (js_get exercise ''sets'')"
    by (cases exercise) simp_all
  from False assms obtain xs where xs: "js_get exercise ''sets'' = Some (JArr xs)" "JNull \<in> set xs"
    by (cases "js_get exercise ''sets''" rule: array_or_empty.cases) (auto simp: list_all_iff)
  from js_map_Inl [where f = normalize_set, OF xs(2) normalize_set_null] obtain e where "js_map normalize_set xs = Inl e" ..
  then show ?thesis using xs(1) by (simp add: normalize_exercise_def m)
qed

text \<open>No \<open>null\<close> among the exercises and sets of one workout.\<close>

definition exercises_ok :: "jsval \<Rightarrow> bool" where
  "exercises_ok workout =
     list_all (\<lambda>exercise. exercise \<noteq> JNull
                \<and> list_all (\<lambda>s. s \<noteq> JNull) (array_or_empty (js_get exercise ''sets'')))
       (array_or_empty (js_get workout ''exercises''))"

lemma normalize_workout_ok:
  assumes "workout \<noteq> JNull" and "exercises_ok workout"
  shows "normalize_workout workout = Inr (defaulted_workout workout)"
proof -
  have m: "js_member workout ''exercises'' = Inr (js_get workout ''exercises'')"
    using assms(1) by (cases workout) simp_all
  show ?thesis
  proof (cases "js_get workout ''exercises''")
    case None
    then show ?thesis by (simp add: normalize_workout_def defaulted_workout_def m)
  next
    case (Some v)
    show ?thesis
    proof (cases v)
      case (JArr xs)
      with Some assms(2) have "\<forall>x\<in>set xs. normalize_exercise x = Inr (defaulted_exercise x)"
        by (simp add: exercises_ok_def list_all_iff normalize_exercise_ok)
      from js_map_Inr [OF this] Some JArr show ?thesis
        by (simp add: normalize_workout_def defaulted_workout_def m)
    qed (use Some in \<open>simp_all add: normalize_workout_def defaulted_workout_def m\<close>)
  qed
qed

lemma normalize_workout_fails:
  assumes "\<not> exercises_ok workout"
  shows "\<exists>e. normalize_workout workout = Inl e"
proof (cases "workout = JNull")
  case True
  then show ?thesis by (simp add: normalize_workout_def)
next
  case False
  then have m: "js_member workout ''exercises'' = Inr (js_get workout ''exercises'')"
    by (cases workout) simp_all
  from assms obtain xs x where xs: "js_get workout ''exercises'' = Some (JArr xs)" "x \<in> set xs"
      "x = JNull \<or> \<not> list_all (\<lambda>s. s \<noteq> JNull) (array_or_empty (js_get x ''sets''))"
    by (cases "js_get workout ''exercises''" rule: array_or_empty.cases)
       (auto simp: exercises_ok_def list_all_iff)
  from normalize_exercise_fails [OF xs(3)] obtain e where "normalize_exercise x = Inl e" ..
  from js_map_Inl [where f = normalize_exercise, OF xs(2) this] obtain e' where "js_map normalize_exercise xs = Inl e'" ..
  then show ?thesis using xs(1) by (simp add: normalize_workout_def m)
qed

lemma no_null_entries_iff: "no_null_entries stored \<longleftrightarrow> (\<forall>x\<in>set stored. exercises_ok x)"
  by (simp add: no_null_entries_def exercises_ok_def list_all_iff)

lemma parseWorkouts_not_null: "x \<in> set (fst (parseWorkouts P v w)) \<Longrightarrow> x \<noteq> JNull"
  by (auto simp: parseWorkouts_def split: option.splits if_splits jsval.splits)

lemma loadStoredWorkoutSessions_not_null:
  "x \<in> set (fst (loadStoredWorkoutSessions P w)) \<Longrightarrow> x \<noteq> JNull"
  using parseWorkouts_not_null
  by (auto simp: loadStoredWorkoutSessions_def split: if_splits sum.splits)

lemma normalize_loaded:
  assumes "\<forall>x\<in>set stored. x \<noteq> JNull"
  shows "no_null_entries stored \<Longrightarrow> js_map normalize_workout stored = Inr (map defaulted_workout stored)"
    and "\<not> no_null_entries stored \<Longrightarrow> \<exists>e. js_map normalize_workout stored = Inl e"
proof -
  show "js_map normalize_workout stored = Inr (map defaulted_workout stored)" if "no_null_entries stored"
    using that assms by (intro js_map_Inr) (simp add: no_null_entries_iff normalize_workout_ok)
  show "\<exists>e. js_map normalize_workout stored = Inl e" if "\<not> no_null_entries stored"
  proof -
    from that obtain x where x: "x \<in> set stored" "\<not> exercises_ok x"
      by (auto simp: no_null_entries_iff)
    from normalize_workout_fails [OF x(2)] obtain e where "normalize_workout x = Inl e" ..
    from js_map_Inl [where f = normalize_workout, OF x(1) this] show ?thesis .
  qed
qed

lemma load_unparseable:
  assumes "canUseAsyncStorage P" and "\<not> getItem_rejects P"
    and "storage w WORKOUTS_STORAGE_KEY = Some s" and "JSON_parse P s = None"
  shows "fst (loadStoredWorkoutSessions P w) = []"
  using assms
  by (simp add: loadStoredWorkoutSessions_def AsyncStorage_getItem_def parseWorkouts_def)

lemma defaulted_fields:
  "js_get (defaulted_set s) ''reps'' = Some (defaulted_to_zero (js_get s ''reps''))"
  "js_get (defaulted_set s) ''weight'' = Some (defaulted_to_zero (js_get s ''weight''))"
  "js_get (defaulted_set s) ''completed'' = Some (JBool (Boolean (js_get s ''completed'')))"
  "js_get (defaulted_exercise e) ''sets''
     = Some (JArr (map defaulted_set (array_or_empty (js_get e ''sets''))))"
  "js_get (defaulted_workout x) ''exercises''
     = Some (JArr (map defaulted_exercise (array_or_empty (js_get x ''exercises''))))"
  by (simp_all add: defaulted_set_def defaulted_exercise_def defaulted_workout_def update_Some_unfold)

text \<open>
  What \<open>hydrateWorkouts\<close> does, for every platform, store and storage content.
  It resolves. If no element of an \<open>exercises\<close> array and no element of a
  \<open>sets\<close> array of the loaded workouts is \<open>null\<close>, the store becomes the loaded
  workouts with every set record defaulted and every non-array \<open>exercises\<close> or
  \<open>sets\<close> replaced by the empty sequence. Otherwise the normaliser reads a
  property of \<open>null\<close>; the TypeError is caught, the store keeps its previous
  value and the failure is logged. An unparseable payload leaves the store empty.
\<close>

lemma hydrateWorkouts_cases:
  "fst (hydrateWorkouts P st w) = Inr ()
   \<and> (no_null_entries (fst (loadStoredWorkoutSessions P w)) \<longrightarrow>
        workouts (fst (snd (hydrateWorkouts P st w)))
          = map defaulted_workout (fst (loadStoredWorkoutSessions P w)))
   \<and> (\<not> no_null_entries (fst (loadStoredWorkoutSessions P w)) \<longrightarrow>
        fst (snd (hydrateWorkouts P st w)) = st
        \<and> snd (snd (hydrateWorkouts P st w))
            = console_error ''[workoutSessionsStore] Failed to hydrate workouts''
                (snd (loadStoredWorkoutSessions P w)))
   \<and> (canUseAsyncStorage P \<and> \<not> getItem_rejects P
        \<and> storage w WORKOUTS_STORAGE_KEY = Some s \<and> JSON_parse P s = None \<longrightarrow>
        workouts (fst (snd (hydrateWorkouts P st w))) = [])"
proof -
  obtain stored w1 where l: "loadStoredWorkoutSessions P w = (stored, w1)"
    by (cases "loadStoredWorkoutSessions P w")
  have nn: "\<forall>x\<in>set stored. x \<noteq> JNull"
    using loadStoredWorkoutSessions_not_null [of _ P w] l by simp
  have resolves: "fst (hydrateWorkouts P st w) = Inr ()"
    by (simp add: hydrateWorkouts_def l split: sum.splits)
  have ok: "workouts (fst (snd (hydrateWorkouts P st w))) = map defaulted_workout stored"
    if "no_null_entries stored"
    using normalize_loaded(1) [OF nn that] by (simp add: hydrateWorkouts_def l)
  have bad: "fst (snd (hydrateWorkouts P st w)) = st
        \<and> snd (snd (hydrateWorkouts P st w))
            = console_error ''[workoutSessionsStore] Failed to hydrate workouts'' w1"
    if "\<not> no_null_entries stored"
    using normalize_loaded(2) [OF nn that] by (auto simp: hydrateWorkouts_def l)
  have none: "workouts (fst (snd (hydrateWorkouts P st w))) = []"
    if "canUseAsyncStorage P \<and> \<not> getItem_rejects P
        \<and> storage w WORKOUTS_STORAGE_KEY = Some s \<and> JSON_parse P s = None"
  proof -
    from that have "stored = []" using load_unparseable [of P w s] l by simp
    then show ?thesis using ok by (simp add: no_null_entries_def)
  qed
  show ?thesis using resolves ok bad none by (simp add: l)
qed

lemma hydrateWorkouts_cases_example:
  "no_null_entries (fst (loadStoredWorkoutSessions device (world_with_workouts_payload payload_missing_fields)))
   \<and> workouts (fst (snd (hydrateWorkouts device \<lparr>workouts = []\<rparr>
         (world_with_workouts_payload payload_missing_fields))))
      = [JObj [(''id'', JStr ''w1''),
               (''exercises'', JArr
                  [JObj [(''name'', JStr ''Squat''),
                         (''sets'', JArr
                            [JObj [(''reps'', JNum 5), (''weight'', JNum 0), (''completed'', JBool False)],
                             JObj [(''reps'', JNum 0), (''weight'', JNum 0), (''completed'', JBool True)]])],
                   JObj [(''name'', JStr ''Row''), (''sets'', JArr [])]])],
         JObj [(''id'', JStr ''w2''), (''exercises'', JArr [])]]
   \<and> \<not> no_null_entries (fst (loadStoredWorkoutSessions device (world_with_workouts_payload payload_null_exercise)))
   \<and> fst (snd (hydrateWorkouts device \<lparr>workouts = [JObj [(''id'', JStr ''old'')]]\<rparr>
         (world_with_workouts_payload payload_null_exercise)))
      = \<lparr>workouts = [JObj [(''id'', JStr ''old'')]]\<rparr>
   \<and> canUseAsyncStorage device \<and> \<not> getItem_rejects device
   \<and> storage (world_with_workouts_payload payload_unparseable) WORKOUTS_STORAGE_KEY = Some payload_unparseable
   \<and> JSON_parse device payload_unparseable = None
   \<and> workouts (fst (snd (hydrateWorkouts device \<lparr>workouts = [JObj [(''id'', JStr ''old'')]]\<rparr>
         (world_with_workouts_payload payload_unparseable)))) = []"
proof -
  have a1: "no_null_entries (fst (loadStoredWorkoutSessions device (world_with_workouts_payload payload_missing_fields)))"
    by code_simp
  have a2: "map defaulted_workout (fst (loadStoredWorkoutSessions device (world_with_workouts_payload payload_missing_fields)))
      = [JObj [(''id'', JStr ''w1''),
               (''exercises'', JArr
                  [JObj [(''name'', JStr ''Squat''),
                         (''sets'', JArr
                            [JObj [(''reps'', JNum 5), (''weight'', JNum 0), (''completed'', JBool False)],
                             JObj [(''reps'', JNum 0), (''weight'', JNum 0), (''completed'', JBool True)]])],
                   JObj [(''name'', JStr ''Row''), (''sets'', JArr [])]])],
         JObj [(''id'', JStr ''w2''), (''exercises'', JArr [])]]"
    by code_simp
  have b1: "\<not> no_null_entries (fst (loadStoredWorkoutSessions device (world_with_workouts_payload payload_null_exercise)))"
    by code_simp
  have c1: "canUseAsyncStorage device \<and> \<not> getItem_rejects device
     \<and> storage (world_with_workouts_payload payload_unparseable) WORKOUTS_STORAGE_KEY = Some payload_unparseable
     \<and> JSON_parse device payload_unparseable = None"
    by code_simp
  note i1 = hydrateWorkouts_cases
      [of device "\<lparr>workouts = []\<rparr>" "world_with_workouts_payload payload_missing_fields"]
  note i2 = hydrateWorkouts_cases
      [of device "\<lparr>workouts = [JObj [(''id'', JStr ''old'')]]\<rparr>" "world_with_workouts_payload payload_null_exercise"]
  note i3 = hydrateWorkouts_cases
      [of device "\<lparr>workouts = [JObj [(''id'', JStr ''old'')]]\<rparr>" "world_with_workouts_payload payload_unparseable"
          payload_unparseable]
  from i1 a1 a2 have r1: "workouts (fst (snd (hydrateWorkouts device \<lparr>workouts = []\<rparr>
         (world_with_workouts_payload payload_missing_fields))))
      = [JObj [(''id'', JStr ''w1''),
               (''exercises'', JArr
                  [JObj [(''name'', JStr ''Squat''),
                         (''sets'', JArr
                            [JObj [(''reps'', JNum 5), (''weight'', JNum 0), (''completed'', JBool False)],
                             JObj [(''reps'', JNum 0), (''weight'', JNum 0), (''completed'', JBool True)]])],
                   JObj [(''name'', JStr ''Row''), (''sets'', JArr [])]])],
         JObj [(''id'', JStr ''w2''), (''exercises'', JArr [])]]"
    by (simp only:)
  from i2 b1 have r2: "fst (snd (hydrateWorkouts device \<lparr>workouts = [JObj [(''id'', JStr ''old'')]]\<rparr>
         (world_with_workouts_payload payload_null_exercise)))
      = \<lparr>workouts = [JObj [(''id'', JStr ''old'')]]\<rparr>"
    by blast
  from i3 c1 have r3: "workouts (fst (snd (hydrateWorkouts device \<lparr>workouts = [JObj [(''id'', JStr ''old'')]]\<rparr>
         (world_with_workouts_payload payload_unparseable)))) = []"
    by blast
  show ?thesis using a1 b1 c1 r1 r2 r3 by blast
qed

text \<open>
  C4. The claim promises that every loaded workout has a non-array \<open>exercises\<close>
  field defaulted to the empty sequence and its set records defaulted. The code
  does not deliver that on the payload
  \<open>[{"id":"w1","exercises":7},{"id":"w2","exercises":[null]}]\<close>: both workouts
  are loaded (each has an \<open>id\<close>), the normaliser reads \<open>exercise.sets\<close> of the
  \<open>null\<close> exercise of the second without a guard and throws, and the hydration
  is dropped as a whole. Nothing is thrown to the caller, but the store keeps
  its old content: the first workout, whose \<open>exercises\<close> is the number
  \<open>7\<close>, does not arrive in it with \<open>exercises\<close> defaulted to the empty
  sequence, and the failure is logged.
\<close>

theorem hydrateWorkouts_abandoned_on_null_entry:
  "fst (loadStoredWorkoutSessions device (world_with_workouts_payload payload_null_exercise))
     = [JObj [(''id'', JStr ''w1''), (''exercises'', JNum 7)],
        JObj [(''id'', JStr ''w2''), (''exercises'', JArr [JNull])]]
   \<and> normalize_workout (JObj [(''id'', JStr ''w2''), (''exercises'', JArr [JNull])])
     = Inl (TypeError ''Cannot read properties of null'')
   \<and> fst (hydrateWorkouts device \<lparr>workouts = [JObj [(''id'', JStr ''old'')]]\<rparr>
         (world_with_workouts_payload payload_null_exercise)) = Inr ()
   \<and> console (snd (snd (hydrateWorkouts device \<lparr>workouts = [JObj [(''id'', JStr ''old'')]]\<rparr>
         (world_with_workouts_payload payload_null_exercise))))
     = [(LogError, ''[workoutSessionsStore] Failed to hydrate workouts'')]
   \<and> workouts (fst (snd (hydrateWorkouts device \<lparr>workouts = [JObj [(''id'', JStr ''old'')]]\<rparr>
         (world_with_workouts_payload payload_null_exercise))))
     = [JObj [(''id'', JStr ''old'')]]
   \<and> JObj [(''id'', JStr ''w1''), (''exercises'', JArr [])]
       \<notin> set (workouts (fst (snd (hydrateWorkouts device \<lparr>workouts = [JObj [(''id'', JStr ''old'')]]\<rparr>
             (world_with_workouts_payload payload_null_exercise)))))"
  by code_simp

section \<open>Scoring a catalog candidate\<close>

lemma score_token_adds: "score_token e s t = s + first_match_weight e t"
  by (simp add: score_token_def first_match_weight_def Let_def list_ex_iff)

lemma foldl_score_token:
  "foldl (score_token e) s ts = s + sum_list (map (first_match_weight e) ts)"
  by (induction ts arbitrary: s) (simp_all add: score_token_adds)

text \<open>
  C6 (as amended). The score of a candidate is the sum, over the tokens, of the
  weight of the first rule that matches, in the order: exact name 10, name
  prefix 7, name substring 6, primary or filter muscle group 5, secondary muscle
  4, equipment 4, movement pattern 3, compound or bodyweight flag 5, search
  index 2, no match 0; an empty token weighs 0. (\<open>first_match_weight\<close> is that
  rule.)
\<close>

theorem score_is_sum_of_first_match_weights:
  "scoreExercise exercise tokens = sum_list (map (first_match_weight exercise) tokens)"
  by (simp add: scoreExercise_def foldl_score_token)

text \<open>
  The claim ranks the flag match (5) above secondary muscle, equipment and
  movement pattern. A bodyweight exercise has the equipment \<open>Bodyweight\<close>, so for
  the token \<open>bodyweight\<close> the equipment rule answers first: the code scores 4
  where the best-matching field in the claim's precedence weighs 5.
\<close>

theorem score_best_match_counterexample:
  "scoreExercise push_up [''bodyweight''] = 4
   \<and> sum_list (map (claimed_token_weight push_up) [''bodyweight'']) = 5"
  by code_simp

text \<open>The two rules differ only where a flag match meets one of the three rules it is ranked below.\<close>

lemma first_match_agrees_with_claimed:
  assumes "token \<noteq> []"
    and "\<not> ((token = ''compound'' \<and> isCompound exercise \<or> token = ''bodyweight'' \<and> isBodyweight exercise)
            \<and> (list_ex (\<lambda>target. js_includes (normalizeSearchText target) token) (secondaryMuscleGroups exercise)
               \<or> list_ex (\<lambda>item. js_includes (normalizeSearchText item) token) (equipment exercise)
               \<or> js_includes (normalizeSearchText (movementPattern exercise)) token))"
  shows "first_match_weight exercise token = claimed_token_weight exercise token"
  using assms by (auto simp: first_match_weight_def claimed_token_weight_def)

section \<open>The search hook\<close>

text \<open>
  C7. The query \<open>constructor\<close> normalises to the single token \<open>constructor\<close>;
  \<open>TOKEN_SYNONYMS['constructor']\<close> is the function inherited from
  \<open>Object.prototype\<close>, which is truthy and has no \<open>forEach\<close>, so \<open>expandTokens\<close>
  throws and the hook returns no result, whatever the candidates and options.
\<close>

theorem search_throws_on_inherited_property_name:
  "useSemanticExerciseSearch ''constructor'' exercises options
     = Inl (TypeError ''synonyms.forEach is not a function'')"
proof -
  have n: "normalizeSearchText ''constructor'' = ''constructor''" by code_simp
  have t: "expandTokens (filter (\<lambda>t. t \<noteq> []) (split_space ''constructor''))
             = Inl (TypeError ''synonyms.forEach is not a function'')" by code_simp
  show ?thesis unfolding useSemanticExerciseSearch_def Let_def n t by simp
qed

text \<open>
  For every other query the hook behaves as described: an empty normalised query
  gives the empty list; otherwise, with a limit that is not negative, the result
  is the first \<open>limit\<close> elements of the candidates that are not excluded and
  score above 0, in descending order of score, candidates of equal score in
  catalog order.
\<close>

lemma search_empty_query:
  "normalizeSearchText query = [] \<Longrightarrow> useSemanticExerciseSearch query exercises options = Inr []"
  by (simp add: useSemanticExerciseSearch_def Let_def)

lemma ranked_sorted:
  fixes cs :: "('a \<times> int) list"
  assumes "\<forall>p\<in>set cs. snd p = f (fst p)"
  shows "sorted_wrt (\<lambda>a b. f a \<ge> f b) (map fst (sort_key (\<lambda>entry. - snd entry) cs))"
proof -
  have "sorted (map (\<lambda>entry. - snd entry) (sort_key (\<lambda>entry. - snd entry) cs))"
    by (rule sorted_sort_key)
  then have "sorted_wrt (\<lambda>a b. - snd a \<le> - snd b) (sort_key (\<lambda>entry. - snd entry) cs)"
    by (simp only: sorted_map)
  then have "sorted_wrt (\<lambda>a b. f (fst a) \<ge> f (fst b)) (sort_key (\<lambda>entry. - snd entry) cs)"
  proof (rule sorted_wrt_mono_rel [rotated])
    fix a b assume "a \<in> set (sort_key (\<lambda>entry. - snd entry) cs)" "b \<in> set (sort_key (\<lambda>entry. - snd entry) cs)"
      and "- snd a \<le> - snd b"
    then show "f (fst a) \<ge> f (fst b)" using assms by simp
  qed
  then show ?thesis by (simp only: sorted_wrt_map)
qed
lemma ranked_stable:
  fixes cs :: "('a \<times> int) list"
  assumes "\<forall>p\<in>set cs. snd p = f (fst p)"
  shows "filter (\<lambda>e. f e = k) (map fst (sort_key (\<lambda>entry. - snd entry) cs))
           = map fst (filter (\<lambda>p. snd p = k) cs)"
proof -
  have "filter (\<lambda>e. f e = k) (map fst (sort_key (\<lambda>entry. - snd entry) cs))
          = map fst (filter (\<lambda>p. f (fst p) = k) (sort_key (\<lambda>entry. - snd entry) cs))"
    by (simp only: filter_map comp_def)
  also have "filter (\<lambda>p. f (fst p) = k) (sort_key (\<lambda>entry. - snd entry) cs)
          = filter (\<lambda>p. - snd p = - k) (sort_key (\<lambda>entry. - snd entry) cs)"
    by (rule filter_cong [OF refl]) (use assms in simp)
  also have "\<dots> = filter (\<lambda>p. - snd p = - k) cs"
    by (simp only: sort_key_stable)
  also have "\<dots> = filter (\<lambda>p. snd p = k) cs"
    by simp
  finally show ?thesis .
qed

text \<open>The defaults of the options, and the scored candidates before sorting.\<close>

definition option_limit :: "UseSemanticExerciseSearchOptions option \<Rightarrow> int" where
  "option_limit options = (case options of None \<Rightarrow> 6 | Some opts \<Rightarrow> (case limit opts of None \<Rightarrow> 6 | Some n \<Rightarrow> n))"

definition option_excluded :: "UseSemanticExerciseSearchOptions option \<Rightarrow> string list" where
  "option_excluded options = (case options of None \<Rightarrow> [] | Some opts \<Rightarrow> (case excludeIds opts of None \<Rightarrow> [] | Some ids \<Rightarrow> ids))"

definition candidates :: "string list \<Rightarrow> string list \<Rightarrow> ExerciseCatalogItem list \<Rightarrow> (ExerciseCatalogItem \<times> int) list" where
  "candidates excluded tokens exercises =
     filter (\<lambda>entry. snd entry > 0)
       (map (\<lambda>exercise. (exercise, scoreExercise exercise tokens))
          (filter (\<lambda>exercise. exercise_id exercise \<notin> set excluded) exercises))"

lemma candidates_snd: "\<forall>p\<in>set (candidates excluded tokens exercises). snd p = scoreExercise (fst p) tokens"
  by (auto simp: candidates_def)

lemma candidates_fst:
  "fst ` set (candidates excluded tokens exercises)
     = {e \<in> set exercises. exercise_id e \<notin> set excluded \<and> scoreExercise e tokens > 0}"
  by (auto simp: candidates_def image_iff)

lemma candidates_filter:
  "map fst (filter (\<lambda>p. snd p = k) (candidates excluded tokens exercises))
     = filter (\<lambda>e. scoreExercise e tokens = k \<and> k > 0 \<and> exercise_id e \<notin> set excluded) exercises"
  by (induction exercises) (auto simp: candidates_def)

lemma search_unfold:
  assumes "normalizeSearchText query \<noteq> []"
    and "expandTokens (filter (\<lambda>t. t \<noteq> []) (split_space (normalizeSearchText query))) = Inr tokens"
  shows "useSemanticExerciseSearch query exercises options
     = Inr (map fst (slice_to (option_limit options)
         (sort_key (\<lambda>entry. - snd entry) (candidates (option_excluded options) tokens exercises))))"
  unfolding useSemanticExerciseSearch_def Let_def option_limit_def [symmetric]
    option_excluded_def [symmetric] candidates_def [symmetric]
  by (simp only: assms if_False sum.case)

lemma search_result:
  assumes "normalizeSearchText query \<noteq> []"
    and "expandTokens (filter (\<lambda>t. t \<noteq> []) (split_space (normalizeSearchText query))) = Inr tokens"
    and "0 \<le> option_limit options"
  shows "\<exists>ranked.
      useSemanticExerciseSearch query exercises options = Inr (take (nat (option_limit options)) ranked)
      \<and> set ranked = {e \<in> set exercises. exercise_id e \<notin> set (option_excluded options)
                                        \<and> scoreExercise e tokens > 0}
      \<and> sorted_wrt (\<lambda>a b. scoreExercise a tokens \<ge> scoreExercise b tokens) ranked
      \<and> (\<forall>k. filter (\<lambda>e. scoreExercise e tokens = k) ranked
             = filter (\<lambda>e. scoreExercise e tokens = k \<and> k > 0
                            \<and> exercise_id e \<notin> set (option_excluded options)) exercises)"
proof -
  define cs where "cs = candidates (option_excluded options) tokens exercises"
  define ranked where "ranked = map fst (sort_key (\<lambda>entry. - snd entry) cs)"
  have sl: "slice_to (option_limit options) (sort_key (\<lambda>entry. - snd entry) cs)
              = take (nat (option_limit options)) (sort_key (\<lambda>entry. - snd entry) cs)"
    using assms(3) by (simp add: slice_to_def)
  have r: "useSemanticExerciseSearch query exercises options = Inr (take (nat (option_limit options)) ranked)"
    unfolding search_unfold [OF assms(1,2)] ranked_def cs_def [symmetric] sl
    by (simp only: take_map)
  have s: "set ranked = {e \<in> set exercises. exercise_id e \<notin> set (option_excluded options)
                                        \<and> scoreExercise e tokens > 0}"
    unfolding ranked_def cs_def by (simp only: set_map set_sort candidates_fst)
  have o: "sorted_wrt (\<lambda>a b. scoreExercise a tokens \<ge> scoreExercise b tokens) ranked"
    unfolding ranked_def cs_def by (rule ranked_sorted [OF candidates_snd])
  have st: "filter (\<lambda>e. scoreExercise e tokens = k) ranked
             = filter (\<lambda>e. scoreExercise e tokens = k \<and> k > 0
                            \<and> exercise_id e \<notin> set (option_excluded options)) exercises" for k
    unfolding ranked_def cs_def
    by (simp only: ranked_stable [OF candidates_snd] candidates_filter)
  from r s o st show ?thesis by blast
qed

section \<open>The result of saving a plan\<close>

lemma handleSavePlan_validation:
  "trim (planName params) = [] \<Longrightarrow>
     handleSavePlan P store params random_text saving s w = (Inr Result_missing_name, saving, s, w)"
  "trim (planName params) \<noteq> [] \<Longrightarrow> selectedExercises params = [] \<Longrightarrow>
     handleSavePlan P store params random_text saving s w = (Inr Result_no_exercises, saving, s, w)"
  by (simp_all add: handleSavePlan_def)

lemma submitPlan_validation:
  "trim name_text = [] \<Longrightarrow>
     submitPlan P name_text selected random_integer saving w
       = (Inr Result_missing_name, saving, console_log ''[usePlanBuilder] SUBMITTING PLAN:'' w)"
  "trim name_text \<noteq> [] \<Longrightarrow> selected = [] \<Longrightarrow>
     submitPlan P name_text selected random_integer saving w
       = (Inr Result_no_exercises, saving, console_log ''[usePlanBuilder] SUBMITTING PLAN:'' w)"
  by (simp_all add: submitPlan_def)

text \<open>
  With a creation time that is a valid time value, \<open>handleSavePlan\<close> returns one
  of the four results, and \<open>submitPlan\<close> does whenever the clock is one.
\<close>

lemma handleSavePlan_returns_a_result:
  assumes "Date_of_js_number
             (case editingPlanCreatedAt params of Some t \<Rightarrow> t | None \<Rightarrow> Finite (of_int (Date_now P)))
           \<noteq> None"
  shows "\<exists>r. fst (handleSavePlan P store params random_text saving s w) = Inr r"
  using assms
  by (auto simp: handleSavePlan_def toISOString_def Let_def split: option.splits prod.splits sum.splits)

lemma submitPlan_returns_a_result:
  assumes "\<bar>Date_now P\<bar> \<le> 8640000000000000"
  shows "\<exists>r. fst (submitPlan P name_text selected random_integer saving w) = Inr r"
  using assms
  by (auto simp: submitPlan_def toISOString_def Date_of_number_def TimeClip_def Let_def
        split: option.splits prod.splits sum.splits)

text \<open>
  When the write is rejected the handler answers \<open>error\<close>, and the state of the
  screen and of the plans store is the one it started from: the store is
  touched only after \<open>savePlan\<close> has resolved.
\<close>

lemma handleSavePlan_persistence_fails:
  assumes "canUseAsyncStorage P" and "setItem_rejects P"
    and "trim (planName params) \<noteq> []" and "selectedExercises params \<noteq> []" and "\<not> saving"
    and "Date_of_js_number
             (case editingPlanCreatedAt params of Some t \<Rightarrow> t | None \<Rightarrow> Finite (of_int (Date_now P)))
           \<noteq> None"
  shows "fst (handleSavePlan P store params random_text saving s w) = Inr Result_error
    \<and> fst (snd (snd (handleSavePlan P store params random_text saving s w))) = s"
  using assms
  by (auto simp: handleSavePlan_def handleSavePlan_try_def toISOString_def Let_def
        savePlan_rejected [OF assms(1,2)] split: option.splits)

text \<open>
  C9. The claim promises a result value, never an exception, for every attempt
  to save a plan. \<open>handleSavePlan\<close> builds the payload, with
  \<open>new Date(createdAtTimestamp).toISOString()\<close>, after \<open>setIsSaving(true)\<close> and
  before its \<open>try\<close> block. When a plan is edited whose creation time is not a
  valid time value (here \<open>NaN\<close>), with a name and two exercises selected,
  \<open>toISOString\<close> throws a RangeError that nothing catches: the handler rejects
  instead of returning one of the four results, nothing is persisted, and the
  saving flag stays set, so that every later attempt answers \<open>error\<close>.
\<close>

theorem handleSavePlan_throws_on_invalid_creation_time:
  "trim (planName edited_plan_params) = ''Push day''
   \<and> selectedExercises edited_plan_params = [push_up, bench_press]
   \<and> fst (handleSavePlan device plans_store_stub edited_plan_params ''k3x9q1'' False () empty_world)
       = Inl (RangeError ''Invalid time value'')
   \<and> fst (snd (handleSavePlan device plans_store_stub edited_plan_params ''k3x9q1'' False () empty_world))
       = True
   \<and> storage (snd (snd (snd
         (handleSavePlan device plans_store_stub edited_plan_params ''k3x9q1'' False () empty_world))))
       PLANS_STORAGE_KEY = None
   \<and> fst (handleSavePlan device plans_store_stub edited_plan_params ''k3x9q1'' True () empty_world)
       = Inr Result_error"
  by code_simp

text \<open>
  On the same device a new plan is saved: the result is \<open>success\<close> and the slot
  holds the plan, with the trimmed name, three sets for each exercise and the
  clock's time as its creation time.
\<close>

lemma handleSavePlan_example:
  "fst (handleSavePlan device plans_store_stub new_plan_params ''k3x9q1'' False () empty_world)
     = Inr Result_success
   \<and> storage (snd (snd (snd
         (handleSavePlan device plans_store_stub new_plan_params ''k3x9q1'' False () empty_world))))
       PLANS_STORAGE_KEY
     = Some ''[{\"id\":\"1714644000000-k3x9q1\",\"name\":\"Push day\",\"exercises\":[{\"id\":\"push-up\",\"name\":\"Push Up\",\"sets\":3},{\"id\":\"bench-press\",\"name\":\"Bench Press\",\"sets\":3}],\"createdAt\":\"2024-05-02T10:00:00.000Z\"}]''"
  by code_simp


end
